theory Spec2Isabelle
  imports Main "HOL-Library.Word"
begin

section \<open>The GLX window of panda/src/glxdisplay/glxGraphicsWindow.cxx\<close>

text \<open>
  A shallow embedding of \<^verbatim>\<open>glxGraphicsWindow\<close>: the window is a record of its members,
  every method takes the window and returns the updated one, and every call that leaves
  the process through the X connection is appended to a log kept in the window
  (\<open>xlog\<close>), so that "a request is sent" is a statement about the state.
\<close>

subsection \<open>Collaborator types\<close>

datatype z_order = Z_bottom | Z_normal | Z_top

text \<open>
  Modelled from the spec: \<^verbatim>\<open>WindowProperties\<close> is not under src/. The spec's property
  model is a sparse attribute set, each attribute independently present or absent; a
  getter of an absent attribute gives the default-constructed value (0, false, the empty
  title, \<open>Z_normal\<close>).
\<close>

record window_properties =
  p_origin :: "(int \<times> int) option"
  p_size :: "(int \<times> int) option"
  p_title :: "string option"
  p_undecorated :: "bool option"
  p_fullscreen :: "bool option"
  p_foreground :: "bool option"
  p_minimized :: "bool option"
  p_raw_mice :: "bool option"
  p_open :: "bool option"
  p_cursor_hidden :: "bool option"
  p_fixed_size :: "bool option"
  p_z_order :: "z_order option"

definition WindowProperties :: window_properties where
  "WindowProperties =
     \<lparr>p_origin = None, p_size = None, p_title = None, p_undecorated = None,
      p_fullscreen = None, p_foreground = None, p_minimized = None, p_raw_mice = None,
      p_open = None, p_cursor_hidden = None, p_fixed_size = None, p_z_order = None\<rparr>"

definition flag :: "bool option \<Rightarrow> bool" where
  "flag b = (case b of None \<Rightarrow> False | Some v \<Rightarrow> v)"

definition has_origin :: "window_properties \<Rightarrow> bool" where
  "has_origin p = (p_origin p \<noteq> None)"

definition get_x_origin :: "window_properties \<Rightarrow> int" where
  "get_x_origin p = (case p_origin p of None \<Rightarrow> 0 | Some (x, y) \<Rightarrow> x)"

definition get_y_origin :: "window_properties \<Rightarrow> int" where
  "get_y_origin p = (case p_origin p of None \<Rightarrow> 0 | Some (x, y) \<Rightarrow> y)"

definition set_origin :: "window_properties \<Rightarrow> int \<Rightarrow> int \<Rightarrow> window_properties" where
  "set_origin p x y = p\<lparr>p_origin := Some (x, y)\<rparr>"

definition clear_origin :: "window_properties \<Rightarrow> window_properties" where
  "clear_origin p = p\<lparr>p_origin := None\<rparr>"

definition has_size :: "window_properties \<Rightarrow> bool" where
  "has_size p = (p_size p \<noteq> None)"

definition get_x_size :: "window_properties \<Rightarrow> int" where
  "get_x_size p = (case p_size p of None \<Rightarrow> 0 | Some (w, h) \<Rightarrow> w)"

definition get_y_size :: "window_properties \<Rightarrow> int" where
  "get_y_size p = (case p_size p of None \<Rightarrow> 0 | Some (w, h) \<Rightarrow> h)"

definition set_size :: "window_properties \<Rightarrow> int \<Rightarrow> int \<Rightarrow> window_properties" where
  "set_size p w h = p\<lparr>p_size := Some (w, h)\<rparr>"

definition clear_size :: "window_properties \<Rightarrow> window_properties" where
  "clear_size p = p\<lparr>p_size := None\<rparr>"

definition has_title :: "window_properties \<Rightarrow> bool" where
  "has_title p = (p_title p \<noteq> None)"

definition get_title :: "window_properties \<Rightarrow> string" where
  "get_title p = (case p_title p of None \<Rightarrow> [] | Some t \<Rightarrow> t)"

definition set_title :: "window_properties \<Rightarrow> string \<Rightarrow> window_properties" where
  "set_title p t = p\<lparr>p_title := Some t\<rparr>"

definition clear_title :: "window_properties \<Rightarrow> window_properties" where
  "clear_title p = p\<lparr>p_title := None\<rparr>"

definition has_fullscreen :: "window_properties \<Rightarrow> bool" where
  "has_fullscreen p = (p_fullscreen p \<noteq> None)"

definition get_fullscreen :: "window_properties \<Rightarrow> bool" where
  "get_fullscreen p = flag (p_fullscreen p)"

definition set_fullscreen :: "window_properties \<Rightarrow> bool \<Rightarrow> window_properties" where
  "set_fullscreen p b = p\<lparr>p_fullscreen := Some b\<rparr>"

definition clear_fullscreen :: "window_properties \<Rightarrow> window_properties" where
  "clear_fullscreen p = p\<lparr>p_fullscreen := None\<rparr>"

definition get_undecorated :: "window_properties \<Rightarrow> bool" where
  "get_undecorated p = flag (p_undecorated p)"

definition set_undecorated :: "window_properties \<Rightarrow> bool \<Rightarrow> window_properties" where
  "set_undecorated p b = p\<lparr>p_undecorated := Some b\<rparr>"

definition has_foreground :: "window_properties \<Rightarrow> bool" where
  "has_foreground p = (p_foreground p \<noteq> None)"

definition get_foreground :: "window_properties \<Rightarrow> bool" where
  "get_foreground p = flag (p_foreground p)"

definition set_foreground :: "window_properties \<Rightarrow> bool \<Rightarrow> window_properties" where
  "set_foreground p b = p\<lparr>p_foreground := Some b\<rparr>"

definition clear_foreground :: "window_properties \<Rightarrow> window_properties" where
  "clear_foreground p = p\<lparr>p_foreground := None\<rparr>"

definition has_minimized :: "window_properties \<Rightarrow> bool" where
  "has_minimized p = (p_minimized p \<noteq> None)"

definition get_minimized :: "window_properties \<Rightarrow> bool" where
  "get_minimized p = flag (p_minimized p)"

definition set_minimized :: "window_properties \<Rightarrow> bool \<Rightarrow> window_properties" where
  "set_minimized p b = p\<lparr>p_minimized := Some b\<rparr>"


definition set_open :: "window_properties \<Rightarrow> bool \<Rightarrow> window_properties" where
  "set_open p b = p\<lparr>p_open := Some b\<rparr>"

definition has_cursor_hidden :: "window_properties \<Rightarrow> bool" where
  "has_cursor_hidden p = (p_cursor_hidden p \<noteq> None)"

definition get_cursor_hidden :: "window_properties \<Rightarrow> bool" where
  "get_cursor_hidden p = flag (p_cursor_hidden p)"

definition set_cursor_hidden :: "window_properties \<Rightarrow> bool \<Rightarrow> window_properties" where
  "set_cursor_hidden p b = p\<lparr>p_cursor_hidden := Some b\<rparr>"

definition clear_cursor_hidden :: "window_properties \<Rightarrow> window_properties" where
  "clear_cursor_hidden p = p\<lparr>p_cursor_hidden := None\<rparr>"

definition has_fixed_size :: "window_properties \<Rightarrow> bool" where
  "has_fixed_size p = (p_fixed_size p \<noteq> None)"

definition get_fixed_size :: "window_properties \<Rightarrow> bool" where
  "get_fixed_size p = flag (p_fixed_size p)"

definition has_z_order :: "window_properties \<Rightarrow> bool" where
  "has_z_order p = (p_z_order p \<noteq> None)"

definition get_z_order :: "window_properties \<Rightarrow> z_order" where
  "get_z_order p = (case p_z_order p of None \<Rightarrow> Z_normal | Some z \<Rightarrow> z)"

definition set_z_order :: "window_properties \<Rightarrow> z_order \<Rightarrow> window_properties" where
  "set_z_order p z = p\<lparr>p_z_order := Some z\<rparr>"

definition clear_z_order :: "window_properties \<Rightarrow> window_properties" where
  "clear_z_order p = p\<lparr>p_z_order := None\<rparr>"

definition is_any_specified :: "window_properties \<Rightarrow> bool" where
  "is_any_specified p =
     (p_origin p \<noteq> None \<or> p_size p \<noteq> None \<or> p_title p \<noteq> None \<or>
      p_undecorated p \<noteq> None \<or> p_fullscreen p \<noteq> None \<or> p_foreground p \<noteq> None \<or>
      p_minimized p \<noteq> None \<or> p_raw_mice p \<noteq> None \<or> p_open p \<noteq> None \<or>
      p_cursor_hidden p \<noteq> None \<or> p_fixed_size p \<noteq> None \<or> p_z_order p \<noteq> None)"

definition override :: "'a option \<Rightarrow> 'a option \<Rightarrow> 'a option" where
  "override old new = (case new of None \<Rightarrow> old | Some v \<Rightarrow> Some v)"

text \<open>\<open>add_properties p other\<close>: every attribute present in \<open>other\<close> replaces the one of \<open>p\<close>.\<close>

definition add_properties :: "window_properties \<Rightarrow> window_properties \<Rightarrow> window_properties" where
  "add_properties p other =
     \<lparr>p_origin = override (p_origin p) (p_origin other),
      p_size = override (p_size p) (p_size other),
      p_title = override (p_title p) (p_title other),
      p_undecorated = override (p_undecorated p) (p_undecorated other),
      p_fullscreen = override (p_fullscreen p) (p_fullscreen other),
      p_foreground = override (p_foreground p) (p_foreground other),
      p_minimized = override (p_minimized p) (p_minimized other),
      p_raw_mice = override (p_raw_mice p) (p_raw_mice other),
      p_open = override (p_open p) (p_open other),
      p_cursor_hidden = override (p_cursor_hidden p) (p_cursor_hidden other),
      p_fixed_size = override (p_fixed_size p) (p_fixed_size other),
      p_z_order = override (p_z_order p) (p_z_order other)\<rparr>"

text \<open>
  Modelled from the spec: \<^verbatim>\<open>ButtonHandle\<close>, \<^verbatim>\<open>KeyboardButton\<close> and \<^verbatim>\<open>MouseButton\<close> are not
  under src/. The engine's button identifiers are an enumeration: the sentinel "no
  button", one identifier per ASCII character, the named keys, the wheel identifiers and
  a zero-based ordinal mouse button.
\<close>

datatype button_handle =
    none
  | ascii_key char
  | backspace | tab | enter | escape | space
  | f1 | f2 | f3 | f4 | f5 | f6 | f7 | f8 | f9 | f10 | f11 | f12
  | left | up | right | down | page_up | page_down | home | end_key | insert_key | del
  | shift | control | alt | meta | caps_lock | shift_lock
  | wheel_up | wheel_down
  | button int

text \<open>
  Modelled from the spec: \<^verbatim>\<open>GraphicsWindowInputDevice\<close> is not under src/. The device is
  the sink of the translated input: it holds its label, the pointer position, whether the
  pointer is inside the window, and the sequence of button and keystroke events emitted so
  far.
\<close>

datatype button_event = ButtonDown button_handle | ButtonUp button_handle | Keystroke int

record input_device =
  device_name :: string
  in_window :: bool
  pointer_x :: int
  pointer_y :: int
  button_events :: "button_event list"

definition set_pointer_in_window :: "input_device \<Rightarrow> int \<Rightarrow> int \<Rightarrow> input_device" where
  "set_pointer_in_window d x y = d\<lparr>in_window := True, pointer_x := x, pointer_y := y\<rparr>"

definition set_pointer_out_of_window :: "input_device \<Rightarrow> input_device" where
  "set_pointer_out_of_window d = d\<lparr>in_window := False\<rparr>"

definition button_down :: "input_device \<Rightarrow> button_handle \<Rightarrow> input_device" where
  "button_down d b = d\<lparr>button_events := button_events d @ [ButtonDown b]\<rparr>"

definition button_up :: "input_device \<Rightarrow> button_handle \<Rightarrow> input_device" where
  "button_up d b = d\<lparr>button_events := button_events d @ [ButtonUp b]\<rparr>"

definition keystroke :: "input_device \<Rightarrow> int \<Rightarrow> input_device" where
  "keystroke d c = d\<lparr>button_events := button_events d @ [Keystroke c]\<rparr>"

text \<open>
  Modelled from the spec: the window-manager atoms are owned by the display-connection
  collaborator (\<^verbatim>\<open>glxGraphicsPipe\<close>, not under src/) and copied into the window by its
  constructor. Distinct names intern to distinct atoms, so they are an enumeration;
  \<open>other_atom\<close> stands for any atom the window does not know.
\<close>

datatype atom =
    wm_delete_window
  | net_wm_window_type
  | net_wm_window_type_splash
  | net_wm_window_type_fullscreen
  | net_wm_state
  | net_wm_state_fullscreen
  | net_wm_state_above
  | net_wm_state_below
  | net_wm_state_add
  | net_wm_state_remove
  | other_atom nat

subsection \<open>Requests sent through the X connection\<close>

datatype cw = CWX | CWY | CWWidth | CWHeight | CWStackMode

datatype stack_mode = Above | Below | TopIf

text \<open>\<^verbatim>\<open>XWindowChanges\<close>: a field the code did not assign is \<open>None\<close>.\<close>

record XWindowChanges =
  changes_x :: "int option"
  changes_y :: "int option"
  changes_width :: "int option"
  changes_height :: "int option"
  changes_stack_mode :: "stack_mode option"

datatype initial_state = IconicState | NormalState

record XSizeHints =
  hint_position :: "(int \<times> int) option"
  hint_size :: "(int \<times> int) option"
  hint_min_size :: "(int \<times> int) option"
  hint_max_size :: "(int \<times> int) option"

text \<open>\<open>SetAction state action\<close>, the local class of \<^verbatim>\<open>set_wm_properties\<close>.\<close>

datatype SetAction = SetAction atom atom

datatype cursor = hidden_cursor | no_cursor

datatype focus = focus_window nat | PointerRoot

datatype alloc = AllocAll | AllocNone

datatype event_mask =
    ButtonPressMask | ButtonReleaseMask | KeyPressMask | KeyReleaseMask
  | EnterWindowMask | LeaveWindowMask | PointerMotionMask | FocusChangeMask
  | StructureNotifyMask

text \<open>
  The calls on the connection. \<open>XCreateWindow\<close> carries the origin, the size, the depth, the
  visual, the colormap and the event mask of the attributes; \<open>XCreateColormap\<close> the visual
  and the allocation; \<open>glXMakeCurrent\<close> the drawable and the context.
\<close>

datatype xrequest =
    XWarpPointer nat int int
  | XConfigureWindow nat "cw set" XWindowChanges
  | XReconfigureWMWindow nat "cw set" XWindowChanges
  | XDefineCursor nat cursor
  | XSetInputFocus focus
  | XChangeProperty nat atom "atom list"
  | XSendEvent nat atom atom atom
  | XSetWMProperties nat "string option" "XSizeHints option" initial_state "string option"
  | XSetWMProtocols nat "atom list"
  | XDestroyIC nat
  | XDestroyWindow nat
  | XFlush
  | glXMakeCurrent "nat option" "nat option"
  | glXSwapBuffers nat
  | XCreateColormap nat alloc
  | XCreateWindow "int \<times> int" "int \<times> int" int nat nat "event_mask set"
  | XMapWindow nat

subsection \<open>The window\<close>

text \<open>\<^verbatim>\<open>MouseDeviceInfo\<close>: a raw mouse, its descriptor (-1 once closed) and the bytes read so far.\<close>

record MouseDeviceInfo =
  fd :: int
  input_device_index :: nat
  io_buffer :: "8 word list"

text \<open>
  The members of \<^verbatim>\<open>glxGraphicsWindow\<close> and of its base classes that the methods below
  read or write (the atoms apart, see above). \<open>pipe\<close> is whether \<^verbatim>\<open>_pipe\<close> is non-null, \<open>gsg\<close> and \<open>ic\<close> are the
  references (\<open>None\<close> is the null pointer), \<open>xwindow\<close> is the native handle (0 is null),
  \<open>thrown\<close> are the events thrown to the engine, \<open>fb_properties\<close> stands for the
  frame-buffer properties (\<^verbatim>\<open>FrameBufferProperties\<close> is not under src/).
\<close>

record window =
  pipe :: bool
  properties :: window_properties
  input_devices :: "input_device list"
  gsg :: "nat option"
  active :: bool
  close_request_event :: string
  xwindow :: nat
  ic :: "nat option"
  awaiting_configure :: bool
  mouse_device_info :: "MouseDeviceInfo list"
  colormap :: nat
  event_mask :: "event_mask set"
  fb_properties :: nat
  one_shot :: bool
  xlog :: "xrequest list"
  thrown :: "string list"

definition send :: "window \<Rightarrow> xrequest \<Rightarrow> window" where
  "send w r = w\<lparr>xlog := xlog w @ [r]\<rparr>"

text \<open>
  \<^verbatim>\<open>move_pointer(int device, int x, int y)\<close>. \<^verbatim>\<open>device >= _input_devices.size()\<close> compares
  in the unsigned type, which for \<open>1 \<le> device\<close> is the comparison of the numbers.
\<close>

definition move_pointer :: "window \<Rightarrow> int \<Rightarrow> int \<Rightarrow> int \<Rightarrow> bool \<times> window" where
  "move_pointer w device x y =
     (if device = 0 then
        if \<not> get_foreground (properties w) \<or> \<not> in_window (input_devices w ! 0)
        then (False, w)
        else
          let w1 = send w (XWarpPointer (xwindow w) x y);
              w2 = w1\<lparr>input_devices :=
                     (input_devices w1)[0 := set_pointer_in_window (input_devices w1 ! 0) x y]\<rparr>
          in (True, w2)
      else
        if device < 1 \<or> nat device \<ge> length (input_devices w)
        then (False, w)
        else (True, w\<lparr>input_devices :=
               (input_devices w)[nat device :=
                  set_pointer_in_window (input_devices w ! nat device) x y]\<rparr>))"

subsection \<open>Closing the window\<close>

text \<open>
  Modelled from the spec: \<^verbatim>\<open>GraphicsWindow::close_window\<close>, the base-class step that ends
  \<^verbatim>\<open>close_window\<close>, is not under src/. The spec's close() has no step after the native
  window is destroyed and the connection flushed, so the base step changes no state.
\<close>

definition GraphicsWindow_close_window :: "window \<Rightarrow> window" where
  "GraphicsWindow_close_window w = w"

definition close_window :: "window \<Rightarrow> window" where
  "close_window w =
     (let w1 = (if gsg w \<noteq> None
                then (send w (glXMakeCurrent None None))\<lparr>gsg := None, active := False\<rparr>
                else w);
          w2 = (case ic w1 of
                  Some i \<Rightarrow> (send w1 (XDestroyIC i))\<lparr>ic := None\<rparr>
                | None \<Rightarrow> w1);
          w3 = (if xwindow w2 \<noteq> 0
                then send ((send w2 (XDestroyWindow (xwindow w2)))\<lparr>xwindow := 0\<rparr>) XFlush
                else w2)
      in GraphicsWindow_close_window w3)"

subsection \<open>Native events\<close>

text \<open>\<^verbatim>\<open>Time\<close> is \<^verbatim>\<open>unsigned long\<close>: 64 bits where this window is built (LP64).\<close>

type_synonym Time = "64 word"

record XKeyEvent =
  keycode :: nat
  key_time :: Time
  key_x :: int
  key_y :: int

record XButtonEvent =
  xbutton :: int
  button_x :: int
  button_y :: int

text \<open>
  One constructor per event type of the \<^verbatim>\<open>switch\<close> in \<^verbatim>\<open>process_events\<close>, with the fields
  the code reads; \<open>OtherEvent\<close> is any type that reaches the \<^verbatim>\<open>default\<close> branch.
  \<open>ClientMessage a\<close> carries \<^verbatim>\<open>data.l[0]\<close> read as an atom.
\<close>

datatype event_data =
    ReparentNotify
  | ConfigureNotify int int
  | ButtonPress XButtonEvent
  | ButtonRelease XButtonEvent
  | MotionNotify int int
  | KeyPress XKeyEvent
  | KeyRelease XKeyEvent
  | EnterNotify int int
  | LeaveNotify
  | FocusIn
  | FocusOut
  | UnmapNotify
  | MapNotify
  | ClientMessage atom
  | DestroyNotify
  | OtherEvent nat

text \<open>
  A queued event: the window it was sent to, what \<^verbatim>\<open>XFilterEvent\<close> answers for it (the
  input method's decision), and its data.
\<close>

record XEvent =
  ev_window :: nat
  ev_filtered :: bool
  ev_data :: event_data

text \<open>
  A record of a raw device (\<^verbatim>\<open>struct input_event\<close> of \<^verbatim>\<open>linux/input.h\<close>) and how the
  read loop of \<^verbatim>\<open>poll_raw_mice\<close> ends: \<^verbatim>\<open>read\<close> would block, or it fails.
\<close>

record input_event =
  ie_type :: nat
  ie_code :: nat
  ie_value :: "32 word"

datatype read_end = would_block | read_failed

text \<open>
  What the methods take from outside the file: the X library's keyboard lookups, the
  ASCII equivalent of a button (\<^verbatim>\<open>ButtonHandle\<close>), the pipe's display size, the
  configured wheel buttons, and the two base-class methods that run first in
  \<^verbatim>\<open>set_properties_now\<close> and \<^verbatim>\<open>process_events\<close> (not under src/, and not described by the
  spec). \<open>XwcLookupString\<close> gives the wide characters the input context composes
  for a key press. \<open>reads fd\<close> are the chunks that successive \<^verbatim>\<open>read\<close> calls on a
  descriptor return in one poll and how the loop ends; the size and the layout of
  \<^verbatim>\<open>struct input_event\<close> are the platform's.
\<close>

record collaborators =
  XLookupKeysym :: "XKeyEvent \<Rightarrow> nat"
  XwcLookupString :: "XKeyEvent \<Rightarrow> int list"
  has_ascii_equivalent :: "button_handle \<Rightarrow> bool"
  get_ascii_equivalent :: "button_handle \<Rightarrow> int"
  get_display_width :: int
  get_display_height :: int
  glx_wheel_up_button :: int
  glx_wheel_down_button :: int
  GraphicsWindow_set_properties_now ::
    "window \<Rightarrow> window_properties \<Rightarrow> window \<times> window_properties"
  GraphicsWindow_process_events :: "window \<Rightarrow> window"
  reads :: "int \<Rightarrow> 8 word list list \<times> read_end"
  sizeof_input_event :: nat
  decode_input_event :: "8 word list \<Rightarrow> input_event"

text \<open>
  The \<^verbatim>\<open>switch\<close> of \<^verbatim>\<open>get_button\<close> as a table from the keysym (its value in
  \<^verbatim>\<open>X11/keysym.h\<close>, named in the comments) to the button, in the order of the source.
\<close>

definition keysym_table :: "(nat \<times> button_handle) list" where
  "keysym_table = [
      (0xff08, backspace), (0xff09, tab), (0xff0d, enter), \<comment> \<open>XK_BackSpace XK_Tab XK_Return\<close>
      (0xff1b, escape), (0x20, space), (0x21, ascii_key CHR ''!''), \<comment> \<open>XK_Escape XK_space XK_exclam\<close>
      (0x22, ascii_key (CHR 0x22)), (0x23, ascii_key CHR ''#''), (0x24, ascii_key CHR ''$''), \<comment> \<open>XK_quotedbl XK_numbersign XK_dollar\<close>
      (0x25, ascii_key CHR ''%''), (0x26, ascii_key CHR ''&''), (0x27, ascii_key (CHR 0x27)), \<comment> \<open>XK_percent XK_ampersand XK_apostrophe\<close>
      (0x28, ascii_key CHR ''(''), (0x29, ascii_key CHR '')''), (0x2a, ascii_key CHR ''*''), \<comment> \<open>XK_parenleft XK_parenright XK_asterisk\<close>
      (0x2b, ascii_key CHR ''+''), (0x2c, ascii_key CHR '',''), (0x2d, ascii_key CHR ''-''), \<comment> \<open>XK_plus XK_comma XK_minus\<close>
      (0x2e, ascii_key CHR ''.''), (0x2f, ascii_key CHR ''/''), (0x30, ascii_key CHR ''0''), \<comment> \<open>XK_period XK_slash XK_0\<close>
      (0x31, ascii_key CHR ''1''), (0x32, ascii_key CHR ''2''), (0x33, ascii_key CHR ''3''), \<comment> \<open>XK_1 XK_2 XK_3\<close>
      (0x34, ascii_key CHR ''4''), (0x35, ascii_key CHR ''5''), (0x36, ascii_key CHR ''6''), \<comment> \<open>XK_4 XK_5 XK_6\<close>
      (0x37, ascii_key CHR ''7''), (0x38, ascii_key CHR ''8''), (0x39, ascii_key CHR ''9''), \<comment> \<open>XK_7 XK_8 XK_9\<close>
      (0x3a, ascii_key CHR '':''), (0x3b, ascii_key CHR '';''), (0x3c, ascii_key CHR ''<''), \<comment> \<open>XK_colon XK_semicolon XK_less\<close>
      (0x3d, ascii_key CHR ''=''), (0x3e, ascii_key CHR ''>''), (0x3f, ascii_key CHR ''?''), \<comment> \<open>XK_equal XK_greater XK_question\<close>
      (0x40, ascii_key CHR ''@''), (0x41, ascii_key CHR ''A''), (0x42, ascii_key CHR ''B''), \<comment> \<open>XK_at XK_A XK_B\<close>
      (0x43, ascii_key CHR ''C''), (0x44, ascii_key CHR ''D''), (0x45, ascii_key CHR ''E''), \<comment> \<open>XK_C XK_D XK_E\<close>
      (0x46, ascii_key CHR ''F''), (0x47, ascii_key CHR ''G''), (0x48, ascii_key CHR ''H''), \<comment> \<open>XK_F XK_G XK_H\<close>
      (0x49, ascii_key CHR ''I''), (0x4a, ascii_key CHR ''J''), (0x4b, ascii_key CHR ''K''), \<comment> \<open>XK_I XK_J XK_K\<close>
      (0x4c, ascii_key CHR ''L''), (0x4d, ascii_key CHR ''M''), (0x4e, ascii_key CHR ''N''), \<comment> \<open>XK_L XK_M XK_N\<close>
      (0x4f, ascii_key CHR ''O''), (0x50, ascii_key CHR ''P''), (0x51, ascii_key CHR ''Q''), \<comment> \<open>XK_O XK_P XK_Q\<close>
      (0x52, ascii_key CHR ''R''), (0x53, ascii_key CHR ''S''), (0x54, ascii_key CHR ''T''), \<comment> \<open>XK_R XK_S XK_T\<close>
      (0x55, ascii_key CHR ''U''), (0x56, ascii_key CHR ''V''), (0x57, ascii_key CHR ''W''), \<comment> \<open>XK_U XK_V XK_W\<close>
      (0x58, ascii_key CHR ''X''), (0x59, ascii_key CHR ''Y''), (0x5a, ascii_key CHR ''Z''), \<comment> \<open>XK_X XK_Y XK_Z\<close>
      (0x5b, ascii_key CHR ''[''), (0x5c, ascii_key (CHR 0x5c)), (0x5d, ascii_key CHR '']''), \<comment> \<open>XK_bracketleft XK_backslash XK_bracketright\<close>
      (0x5e, ascii_key CHR ''^''), (0x5f, ascii_key CHR ''_''), (0x60, ascii_key (CHR 0x60)), \<comment> \<open>XK_asciicircum XK_underscore XK_grave\<close>
      (0x61, ascii_key CHR ''a''), (0x62, ascii_key CHR ''b''), (0x63, ascii_key CHR ''c''), \<comment> \<open>XK_a XK_b XK_c\<close>
      (0x64, ascii_key CHR ''d''), (0x65, ascii_key CHR ''e''), (0x66, ascii_key CHR ''f''), \<comment> \<open>XK_d XK_e XK_f\<close>
      (0x67, ascii_key CHR ''g''), (0x68, ascii_key CHR ''h''), (0x69, ascii_key CHR ''i''), \<comment> \<open>XK_g XK_h XK_i\<close>
      (0x6a, ascii_key CHR ''j''), (0x6b, ascii_key CHR ''k''), (0x6c, ascii_key CHR ''l''), \<comment> \<open>XK_j XK_k XK_l\<close>
      (0x6d, ascii_key CHR ''m''), (0x6e, ascii_key CHR ''n''), (0x6f, ascii_key CHR ''o''), \<comment> \<open>XK_m XK_n XK_o\<close>
      (0x70, ascii_key CHR ''p''), (0x71, ascii_key CHR ''q''), (0x72, ascii_key CHR ''r''), \<comment> \<open>XK_p XK_q XK_r\<close>
      (0x73, ascii_key CHR ''s''), (0x74, ascii_key CHR ''t''), (0x75, ascii_key CHR ''u''), \<comment> \<open>XK_s XK_t XK_u\<close>
      (0x76, ascii_key CHR ''v''), (0x77, ascii_key CHR ''w''), (0x78, ascii_key CHR ''x''), \<comment> \<open>XK_v XK_w XK_x\<close>
      (0x79, ascii_key CHR ''y''), (0x7a, ascii_key CHR ''z''), (0x7b, ascii_key CHR ''{''), \<comment> \<open>XK_y XK_z XK_braceleft\<close>
      (0x7c, ascii_key CHR ''|''), (0x7d, ascii_key CHR ''}''), (0x7e, ascii_key CHR ''~''), \<comment> \<open>XK_bar XK_braceright XK_asciitilde\<close>
      (0xffbe, f1), (0xffbf, f2), (0xffc0, f3), \<comment> \<open>XK_F1 XK_F2 XK_F3\<close>
      (0xffc1, f4), (0xffc2, f5), (0xffc3, f6), \<comment> \<open>XK_F4 XK_F5 XK_F6\<close>
      (0xffc4, f7), (0xffc5, f8), (0xffc6, f9), \<comment> \<open>XK_F7 XK_F8 XK_F9\<close>
      (0xffc7, f10), (0xffc8, f11), (0xffc9, f12), \<comment> \<open>XK_F10 XK_F11 XK_F12\<close>
      (0xff96, left), (0xff51, left), (0xff97, up), \<comment> \<open>XK_KP_Left XK_Left XK_KP_Up\<close>
      (0xff52, up), (0xff98, right), (0xff53, right), \<comment> \<open>XK_Up XK_KP_Right XK_Right\<close>
      (0xff99, down), (0xff54, down), (0xff9a, page_up), \<comment> \<open>XK_KP_Down XK_Down XK_KP_Prior\<close>
      (0xff55, page_up), (0xff9b, page_down), (0xff56, page_down), \<comment> \<open>XK_Prior XK_KP_Next XK_Next\<close>
      (0xff95, home), (0xff50, home), (0xff9c, end_key), \<comment> \<open>XK_KP_Home XK_Home XK_KP_End\<close>
      (0xff57, end_key), (0xff9e, insert_key), (0xff63, insert_key), \<comment> \<open>XK_End XK_KP_Insert XK_Insert\<close>
      (0xff9f, del), (0xffff, del), (0xffe1, shift), \<comment> \<open>XK_KP_Delete XK_Delete XK_Shift_L\<close>
      (0xffe2, shift), (0xffe3, control), (0xffe4, control), \<comment> \<open>XK_Shift_R XK_Control_L XK_Control_R\<close>
      (0xffe9, alt), (0xffea, alt), (0xffe7, meta), \<comment> \<open>XK_Alt_L XK_Alt_R XK_Meta_L\<close>
      (0xffe8, meta), (0xffe5, caps_lock), (0xffe6, shift_lock) \<comment> \<open>XK_Meta_R XK_Caps_Lock XK_Shift_Lock\<close>
    ]"

definition get_button :: "collaborators \<Rightarrow> XKeyEvent \<Rightarrow> button_handle" where
  "get_button env key_event =
     (let key = XLookupKeysym env key_event
      in case map_of keysym_table key of Some b \<Rightarrow> b | None \<Rightarrow> none)"

definition get_mouse_button :: "collaborators \<Rightarrow> XButtonEvent \<Rightarrow> button_handle" where
  "get_mouse_button env button_event =
     (let index = xbutton button_event
      in if index = glx_wheel_up_button env then wheel_up
         else if index = glx_wheel_down_button env then wheel_down
         else button (index - 1))"

text \<open>\<open>update_device w i f\<close>: \<^verbatim>\<open>_input_devices[i]\<close> updated by \<open>f\<close>.\<close>

definition update_device :: "window \<Rightarrow> nat \<Rightarrow> (input_device \<Rightarrow> input_device) \<Rightarrow> window" where
  "update_device w i f = w\<lparr>input_devices := (input_devices w)[i := f (input_devices w ! i)]\<rparr>"

definition handle_keystroke :: "collaborators \<Rightarrow> window \<Rightarrow> XKeyEvent \<Rightarrow> window" where
  "handle_keystroke env w event =
     (let w1 = update_device w 0 (\<lambda>d. set_pointer_in_window d (key_x event) (key_y event))
      in if ic w1 \<noteq> None then
           update_device w1 0 (\<lambda>d. foldl keystroke d (XwcLookupString env event))
         else
           let b = get_button env event
           in if has_ascii_equivalent env b
              then update_device w1 0 (\<lambda>d. keystroke d (get_ascii_equivalent env b))
              else w1)"

definition handle_keypress :: "collaborators \<Rightarrow> window \<Rightarrow> XKeyEvent \<Rightarrow> window" where
  "handle_keypress env w event =
     (let w1 = update_device w 0 (\<lambda>d. set_pointer_in_window d (key_x event) (key_y event));
          b = get_button env event
      in if b \<noteq> none then update_device w1 0 (\<lambda>d. button_down d b) else w1)"

definition handle_keyrelease :: "collaborators \<Rightarrow> window \<Rightarrow> XKeyEvent \<Rightarrow> window" where
  "handle_keyrelease env w event =
     (let w1 = update_device w 0 (\<lambda>d. set_pointer_in_window d (key_x event) (key_y event));
          b = get_button env event
      in if b \<noteq> none then update_device w1 0 (\<lambda>d. button_up d b) else w1)"

text \<open>
  Modelled from the spec: \<^verbatim>\<open>GraphicsWindow::system_changed_properties\<close> is not under src/.
  The spec has the event translator adopt the reported attributes into the property
  model and notify the engine.
\<close>

definition system_changed_properties :: "window \<Rightarrow> window_properties \<Rightarrow> window" where
  "system_changed_properties w p =
     w\<lparr>properties := add_properties (properties w) p,
       thrown := thrown w @ [''window-event'']\<rparr>"

text \<open>
  The \<^verbatim>\<open>switch (event.type)\<close> of \<^verbatim>\<open>process_events\<close>. The second component is the key
  release the \<^verbatim>\<open>KeyRelease\<close> branch buffers (\<^verbatim>\<open>keyrelease_event\<close> with
  \<^verbatim>\<open>got_keyrelease_event\<close>).
\<close>

definition switch_event ::
  "collaborators \<Rightarrow> window \<Rightarrow> event_data \<Rightarrow> window \<times> XKeyEvent option" where
  "switch_event env w event =
     (case event of
        ReparentNotify \<Rightarrow> (w, None)
      | ConfigureNotify width height \<Rightarrow>
          (let w1 = w\<lparr>awaiting_configure := False\<rparr>
           in if get_fixed_size (properties w1) then
                let current_props = properties w1
                in if width \<noteq> get_x_size current_props \<or> height \<noteq> get_y_size current_props
                   then (send w1 (XConfigureWindow (xwindow w1) {CWWidth, CWHeight}
                           \<lparr>changes_x = None, changes_y = None,
                            changes_width = Some (get_x_size current_props),
                            changes_height = Some (get_y_size current_props),
                            changes_stack_mode = None\<rparr>), None)
                   else (w1, None)
              else (system_changed_properties w1 (set_size WindowProperties width height), None))
      | ButtonPress e \<Rightarrow>
          (let b = get_mouse_button env e;
               w1 = update_device w 0 (\<lambda>d. set_pointer_in_window d (button_x e) (button_y e))
           in (update_device w1 0 (\<lambda>d. button_down d b), None))
      | ButtonRelease e \<Rightarrow>
          (let b = get_mouse_button env e;
               w1 = update_device w 0 (\<lambda>d. set_pointer_in_window d (button_x e) (button_y e))
           in (update_device w1 0 (\<lambda>d. button_up d b), None))
      | MotionNotify x y \<Rightarrow> (update_device w 0 (\<lambda>d. set_pointer_in_window d x y), None)
      | KeyPress e \<Rightarrow> (handle_keypress env (handle_keystroke env w e) e, None)
      | KeyRelease e \<Rightarrow> (w, Some e)
      | EnterNotify x y \<Rightarrow> (update_device w 0 (\<lambda>d. set_pointer_in_window d x y), None)
      | LeaveNotify \<Rightarrow> (update_device w 0 set_pointer_out_of_window, None)
      | FocusIn \<Rightarrow> (system_changed_properties w (set_foreground WindowProperties True), None)
      | FocusOut \<Rightarrow> (system_changed_properties w (set_foreground WindowProperties False), None)
      | UnmapNotify \<Rightarrow> (system_changed_properties w (set_minimized WindowProperties True), None)
      | MapNotify \<Rightarrow>
          (send (system_changed_properties w (set_minimized WindowProperties False))
             (XSetInputFocus (focus_window (xwindow w))), None)
      | ClientMessage a \<Rightarrow>
          (if a = wm_delete_window then
             if close_request_event w \<noteq> []
             then (w\<lparr>thrown := thrown w @ [close_request_event w]\<rparr>, None)
             else (system_changed_properties (close_window w) (set_open WindowProperties False),
                   None)
           else (w, None))
      | DestroyNotify \<Rightarrow> (w, None)
      | OtherEvent t \<Rightarrow> (w, None))"

text \<open>
  The body of the \<^verbatim>\<open>while\<close> loop for an event the filter let through: the key-repeat test
  on the buffered release, then the \<^verbatim>\<open>switch\<close>. \<^verbatim>\<open>Time\<close> is unsigned, so the difference of
  the two times wraps.
\<close>

definition loop_body ::
  "collaborators \<Rightarrow> window \<Rightarrow> XKeyEvent option \<Rightarrow> XEvent \<Rightarrow> window \<times> XKeyEvent option" where
  "loop_body env w got_keyrelease event =
     (case got_keyrelease of
        Some keyrelease_event \<Rightarrow>
          (case ev_data event of
             KeyPress e \<Rightarrow>
               if keycode e = keycode keyrelease_event \<and>
                  key_time e - key_time keyrelease_event \<le> 1
               then (handle_keypress env (handle_keystroke env w e) e, None)
               else switch_event env (handle_keyrelease env w keyrelease_event) (ev_data event)
           | _ \<Rightarrow> switch_event env (handle_keyrelease env w keyrelease_event) (ev_data event))
      | None \<Rightarrow> switch_event env w (ev_data event))"

text \<open>
  \<^verbatim>\<open>XCheckIfEvent\<close> with the predicate \<^verbatim>\<open>check_event\<close>: the first queued event sent to this
  window is removed from the queue and returned.
\<close>

fun XCheckIfEvent :: "nat \<Rightarrow> XEvent list \<Rightarrow> (XEvent \<times> XEvent list) option" where
  "XCheckIfEvent xw [] = None"
| "XCheckIfEvent xw (e # q) =
     (if ev_window e = xw then Some (e, q)
      else case XCheckIfEvent xw q of
             None \<Rightarrow> None
           | Some (e', q') \<Rightarrow> Some (e', e # q'))"

text \<open>
  The \<^verbatim>\<open>while\<close> loop of \<^verbatim>\<open>process_events\<close> and the flush of a buffered release after it;
  the result is the window and the events left in the queue.
\<close>

function drain ::
  "collaborators \<Rightarrow> window \<Rightarrow> XKeyEvent option \<Rightarrow> XEvent list \<Rightarrow> window \<times> XEvent list" where
  "drain env w got_keyrelease q =
     (case XCheckIfEvent (xwindow w) q of
        None \<Rightarrow>
          (case got_keyrelease of
             Some keyrelease_event \<Rightarrow> (handle_keyrelease env w keyrelease_event, q)
           | None \<Rightarrow> (w, q))
      | Some (event, q') \<Rightarrow>
          if ev_filtered event then drain env w got_keyrelease q'
          else case loop_body env w got_keyrelease event of
                 (w', got_keyrelease') \<Rightarrow> drain env w' got_keyrelease' q')"
  by pat_completeness auto
termination
proof (relation "measure (\<lambda>(env, w, got_keyrelease, q). length q)")
  have shorter: "XCheckIfEvent xw q = Some (e, q') \<Longrightarrow> length q' < length q"
    for xw q and e :: XEvent and q'
    by (induction q arbitrary: e q') (auto split: if_splits option.splits)
  show "wf (measure (\<lambda>(env, w, got_keyrelease, q). length q))"
    by simp
  show "((env, w, got_keyrelease, q'), (env, w, got_keyrelease, q))
          \<in> measure (\<lambda>(env, w, got_keyrelease, q). length q)"
    if "XCheckIfEvent (xwindow w) q = Some x2" and "(event, q') = x2"
    for env :: collaborators and w :: window and got_keyrelease :: "XKeyEvent option"
      and q x2 event q'
    using that shorter [of "xwindow w" q event q'] by simp
  show "((env, w', got_keyrelease', q'), (env, w, got_keyrelease, q))
          \<in> measure (\<lambda>(env, w, got_keyrelease, q). length q)"
    if "XCheckIfEvent (xwindow w) q = Some x2" and "(event, q') = x2"
    for env :: collaborators and w :: window and got_keyrelease :: "XKeyEvent option"
      and q x2 event q' and w' :: window and got_keyrelease' :: "XKeyEvent option"
    using that shorter [of "xwindow w" q event q'] by simp
qed

subsection \<open>Window-manager hints\<close>

text \<open>
  The three arrays \<^verbatim>\<open>set_wm_properties\<close> fills (\<^verbatim>\<open>type_data\<close>, \<^verbatim>\<open>state_data\<close>,
  \<^verbatim>\<open>set_data\<close>) as lists, in the order the entries are stored.
\<close>

definition wm_data :: "window_properties \<Rightarrow> atom list \<times> atom list \<times> SetAction list" where
  "wm_data props =
     (let (type_data, state_data, set_data) =
            (if get_fullscreen props
             then ([net_wm_window_type_fullscreen], [net_wm_state_fullscreen],
                   [SetAction net_wm_state_fullscreen net_wm_state_add])
             else ([], [], [SetAction net_wm_state_fullscreen net_wm_state_remove]));
          type_data =
            (if get_undecorated props \<and> \<not> get_fullscreen props
             then type_data @ [net_wm_window_type_splash]
             else type_data)
      in if has_z_order props then
           case get_z_order props of
             Z_bottom \<Rightarrow>
               (type_data, state_data @ [net_wm_state_below],
                set_data @ [SetAction net_wm_state_below net_wm_state_add,
                            SetAction net_wm_state_above net_wm_state_remove])
           | Z_normal \<Rightarrow>
               (type_data, state_data,
                set_data @ [SetAction net_wm_state_below net_wm_state_remove,
                            SetAction net_wm_state_above net_wm_state_remove])
           | Z_top \<Rightarrow>
               (type_data, state_data @ [net_wm_state_above],
                set_data @ [SetAction net_wm_state_below net_wm_state_remove,
                            SetAction net_wm_state_above net_wm_state_add])
         else (type_data, state_data, set_data))"

definition type_data :: "window_properties \<Rightarrow> atom list" where
  "type_data props = fst (wm_data props)"

definition state_data :: "window_properties \<Rightarrow> atom list" where
  "state_data props = fst (snd (wm_data props))"

definition set_data :: "window_properties \<Rightarrow> SetAction list" where
  "set_data props = snd (snd (wm_data props))"

definition size_hints :: "window_properties \<Rightarrow> XSizeHints option" where
  "size_hints props =
     (if has_origin props \<or> has_size props then
        Some \<lparr>hint_position =
                 (if has_origin props then Some (get_x_origin props, get_y_origin props)
                  else None),
              hint_size =
                 (if has_size props then Some (get_x_size props, get_y_size props) else None),
              hint_min_size =
                 (if has_size props \<and> has_fixed_size props
                  then Some (get_x_size props, get_y_size props) else None),
              hint_max_size =
                 (if has_size props \<and> has_fixed_size props
                  then Some (get_x_size props, get_y_size props) else None)\<rparr>
      else None)"

text \<open>
  \<^verbatim>\<open>set_wm_properties(properties, already_mapped)\<close>. The Xlib allocations and the text
  conversion are taken to succeed; a failing \<^verbatim>\<open>nassertv\<close> returns from the method.
\<close>

definition set_wm_properties :: "window \<Rightarrow> window_properties \<Rightarrow> bool \<Rightarrow> window" where
  "set_wm_properties w props already_mapped =
     (let window_name_p = (if has_title props then Some (get_title props) else None);
          size_hints_p = size_hints props;
          initial = (if has_minimized props \<and> get_minimized props
                     then IconicState else NormalState);
          class_hints_p = (if get_undecorated props then Some ''Undecorated'' else None)
      in if \<not> (length (type_data props) < 32) then w
         else if \<not> (length (state_data props) < 32) then w
         else if \<not> (length (set_data props) < 32) then w
         else
           let w1 = send w (XChangeProperty (xwindow w) net_wm_window_type (type_data props));
               w2 = send w1 (XChangeProperty (xwindow w) net_wm_state (state_data props));
               w3 = (if already_mapped
                     then foldl (\<lambda>v a. case a of SetAction state action \<Rightarrow>
                                   send v (XSendEvent (xwindow w) net_wm_state action state))
                            w2 (set_data props)
                     else w2);
               w4 = send w3 (XSetWMProperties (xwindow w) window_name_p size_hints_p initial
                               class_hints_p)
           in send w4 (XSetWMProtocols (xwindow w) [wm_delete_window]))"

subsection \<open>Applying a property delta\<close>

text \<open>
  \<^verbatim>\<open>set_properties_now(WindowProperties &properties)\<close>, block by block. Each block takes
  the window and the delta and returns both, the delta with what the block applied cleared
  from it.

  A fullscreen request implies no decoration, the origin (0, 0) and the size of the
  display.
\<close>

definition fullscreen_request :: "collaborators \<Rightarrow> window_properties \<Rightarrow> window_properties" where
  "fullscreen_request env props =
     (if get_fullscreen props
      then set_size (set_origin (set_undecorated props True) 0 0)
             (get_display_width env) (get_display_height env)
      else props)"

text \<open>The title is stored at once ("Assume this will be honored").\<close>

definition title_now :: "window \<times> window_properties \<Rightarrow> window \<times> window_properties" where
  "title_now s =
     (case s of (w, props) \<Rightarrow>
        if has_title props
        then (w\<lparr>properties := set_title (properties w) (get_title props)\<rparr>, clear_title props)
        else (w, props))"

text \<open>"Ditto for fullscreen mode."\<close>

definition fullscreen_now :: "window \<times> window_properties \<Rightarrow> window \<times> window_properties" where
  "fullscreen_now s =
     (case s of (w, props) \<Rightarrow>
        if has_fullscreen props
        then (w\<lparr>properties := set_fullscreen (properties w) (get_fullscreen props)\<rparr>,
              clear_fullscreen props)
        else (w, props))"

text \<open>
  Origin, size and stacking order go into one \<^verbatim>\<open>XWindowChanges\<close> with its \<^verbatim>\<open>value_mask\<close>;
  the z-order is also stored in \<^verbatim>\<open>_properties\<close>. If the mask is not empty the request is sent
  and \<^verbatim>\<open>_awaiting_configure\<close> is set.
\<close>

definition reconfigure_now :: "window \<times> window_properties \<Rightarrow> window \<times> window_properties" where
  "reconfigure_now s =
     (case s of (w, props) \<Rightarrow>
        let changes = \<lparr>changes_x = None, changes_y = None, changes_width = None,
                       changes_height = None, changes_stack_mode = None\<rparr>;
            value_mask = {};
            (changes, value_mask, props) =
              (if has_origin props
               then (changes\<lparr>changes_x := Some (get_x_origin props),
                              changes_y := Some (get_y_origin props)\<rparr>,
                     value_mask \<union> {CWX, CWY}, clear_origin props)
               else (changes, value_mask, props));
            (changes, value_mask, props) =
              (if has_size props
               then (changes\<lparr>changes_width := Some (get_x_size props),
                              changes_height := Some (get_y_size props)\<rparr>,
                     value_mask \<union> {CWWidth, CWHeight}, clear_size props)
               else (changes, value_mask, props));
            (w, changes, value_mask, props) =
              (if has_z_order props
               then (w\<lparr>properties := set_z_order (properties w) (get_z_order props)\<rparr>,
                     changes\<lparr>changes_stack_mode :=
                       Some (case get_z_order props of
                               Z_bottom \<Rightarrow> Below | Z_normal \<Rightarrow> TopIf | Z_top \<Rightarrow> Above)\<rparr>,
                     value_mask \<union> {CWStackMode}, clear_z_order props)
               else (w, changes, value_mask, props))
        in if value_mask \<noteq> {}
           then ((send w (XReconfigureWMWindow (xwindow w) value_mask changes))
                   \<lparr>awaiting_configure := True\<rparr>, props)
           else (w, props))"

text \<open>The cursor is hidden by defining an invisible one.\<close>

definition cursor_hidden_now :: "window \<times> window_properties \<Rightarrow> window \<times> window_properties" where
  "cursor_hidden_now s =
     (case s of (w, props) \<Rightarrow>
        if has_cursor_hidden props
        then (send (w\<lparr>properties :=
                        set_cursor_hidden (properties w) (get_cursor_hidden props)\<rparr>)
                (XDefineCursor (xwindow w)
                   (if get_cursor_hidden props then hidden_cursor else no_cursor)),
              clear_cursor_hidden props)
        else (w, props))"

definition foreground_now :: "window \<times> window_properties \<Rightarrow> window \<times> window_properties" where
  "foreground_now s =
     (case s of (w, props) \<Rightarrow>
        if has_foreground props
        then (send w (XSetInputFocus
                (if get_foreground props then focus_window (xwindow w) else PointerRoot)),
              clear_foreground props)
        else (w, props))"

text \<open>
  The method: with a null pipe only the base-class step runs; otherwise the fullscreen
  implication, the base-class step and, if it left anything in the delta, the blocks above
  in the order of the source, then the window-manager hints for the properties of the
  window overridden by the delta as the base-class step left it.
\<close>

definition set_properties_now ::
  "collaborators \<Rightarrow> window \<Rightarrow> window_properties \<Rightarrow> window \<times> window_properties" where
  "set_properties_now env w props =
     (if \<not> pipe w then GraphicsWindow_set_properties_now env w props
      else
        case GraphicsWindow_set_properties_now env w (fullscreen_request env props) of
          (w1, p1) \<Rightarrow>
            if \<not> is_any_specified p1 then (w1, p1)
            else
              let wm_properties = add_properties (properties w1) p1
              in case foreground_now (cursor_hidden_now (reconfigure_now
                        (fullscreen_now (title_now (w1, p1))))) of
                   (w2, p2) \<Rightarrow> (set_wm_properties w2 wm_properties True, p2))"

subsection \<open>Raw mice\<close>

text \<open>The constants of \<^verbatim>\<open>linux/input.h\<close> that \<^verbatim>\<open>poll_raw_mice\<close> names.\<close>

definition EV_KEY :: nat where "EV_KEY = 1"
definition EV_REL :: nat where "EV_REL = 2"
definition EV_ABS :: nat where "EV_ABS = 3"
definition REL_X :: nat where "REL_X = 0"
definition REL_Y :: nat where "REL_Y = 1"
definition ABS_X :: nat where "ABS_X = 0"
definition ABS_Y :: nat where "ABS_Y = 1"
definition BTN_MOUSE :: nat where "BTN_MOUSE = 0x110"

text \<open>The read loop of one device: every chunk read is appended to the buffer.\<close>

definition read_all :: "collaborators \<Rightarrow> MouseDeviceInfo \<Rightarrow> MouseDeviceInfo" where
  "read_all env info =
     (if fd info \<ge> 0 then
        case reads env (fd info) of
          (chunks, would_block) \<Rightarrow> info\<lparr>io_buffer := io_buffer info @ concat chunks\<rparr>
        | (chunks, read_failed) \<Rightarrow> info\<lparr>io_buffer := io_buffer info @ concat chunks, fd := -1\<rparr>
      else info)"

text \<open>
  The running coordinate is a C \<^verbatim>\<open>int\<close> and the value of a record a signed 32-bit field:
  a sum that leaves the range of \<^verbatim>\<open>int\<close> wraps around.
\<close>

definition c_int :: "int \<Rightarrow> int" where
  "c_int n = sint (word_of_int n :: 32 word)"

text \<open>One record applied to the device and the running coordinate.\<close>

definition raw_event ::
  "input_device \<times> int \<times> int \<Rightarrow> input_event \<Rightarrow> input_device \<times> int \<times> int" where
  "raw_event s ev =
     (case s of (dev, x, y) \<Rightarrow>
        if ie_type ev = EV_REL then
          (let x = (if ie_code ev = REL_X then c_int (x + sint (ie_value ev)) else x);
               y = (if ie_code ev = REL_Y then c_int (y + sint (ie_value ev)) else y)
           in (dev, x, y))
        else if ie_type ev = EV_ABS then
          (let x = (if ie_code ev = ABS_X then sint (ie_value ev) else x);
               y = (if ie_code ev = ABS_Y then sint (ie_value ev) else y)
           in (dev, x, y))
        else if ie_type ev = EV_KEY then
          if ie_code ev \<ge> BTN_MOUSE \<and> ie_code ev < BTN_MOUSE + 8 then
            (let btn = int (ie_code ev - BTN_MOUSE);
                 dev = set_pointer_in_window dev x y
             in if ie_value ev \<noteq> 0 then (button_down dev (button btn), x, y)
                else (button_up dev (button btn), x, y))
          else (dev, x, y)
        else (dev, x, y))"

text \<open>The body of the \<^verbatim>\<open>for\<close> loop of \<^verbatim>\<open>poll_raw_mice\<close>, for the device at index \<open>i\<close>.\<close>

definition poll_raw_mouse :: "collaborators \<Rightarrow> window \<Rightarrow> nat \<Rightarrow> window" where
  "poll_raw_mouse env w i =
     (let info = read_all env (mouse_device_info w ! i);
          w1 = w\<lparr>mouse_device_info := (mouse_device_info w)[i := info]\<rparr>;
          nevents = length (io_buffer info) div sizeof_input_event env
      in if nevents = 0 then w1
         else
           let events = map (\<lambda>k. decode_input_event env
                               (take (sizeof_input_event env)
                                  (drop (k * sizeof_input_event env) (io_buffer info))))
                          [0..<nevents];
               dev = input_devices w1 ! input_device_index info;
               (dev, x, y) = foldl raw_event (dev, c_int (pointer_x dev), c_int (pointer_y dev)) events;
               info = info\<lparr>io_buffer := drop (nevents * sizeof_input_event env) (io_buffer info)\<rparr>
           in w1\<lparr>mouse_device_info := (mouse_device_info w1)[i := info],
                 input_devices := (input_devices w1)[input_device_index info :=
                                     set_pointer_in_window dev x y]\<rparr>)"

definition poll_raw_mice :: "collaborators \<Rightarrow> window \<Rightarrow> window" where
  "poll_raw_mice env w = foldl (poll_raw_mouse env) w [0..<length (mouse_device_info w)]"

subsection \<open>Processing events\<close>

text \<open>
  \<^verbatim>\<open>process_events\<close> on the queue of the connection: the base-class step, the test of the
  native handle, the raw mice, then the loop.
\<close>

definition process_events ::
  "collaborators \<Rightarrow> window \<Rightarrow> XEvent list \<Rightarrow> window \<times> XEvent list" where
  "process_events env w q =
     (let w1 = GraphicsWindow_process_events env w
      in if xwindow w1 = 0 then (w1, q)
         else drain env (poll_raw_mice env w1) None q)"

subsection \<open>Opening the window\<close>

datatype visual_class =
  PseudoColor | TrueColor | DirectColor | StaticColor | StaticGray | GrayScale | other_class int

record XVisualInfo =
  vi_visual :: nat
  vi_depth :: int
  vi_class :: visual_class

text \<open>
  What opening \<^verbatim>\<open>/dev/input/event<i>\<close> gives: no such node (\<^verbatim>\<open>ENOENT\<close>, \<^verbatim>\<open>ENOTDIR\<close>), another
  error, or a descriptor together with what the four \<^verbatim>\<open>ioctl\<close> calls answer (\<open>None\<close> if one
  fails): the string read into \<^verbatim>\<open>name\<close>, the string read into \<^verbatim>\<open>uniq\<close> (the source asks
  for it with \<^verbatim>\<open>EVIOCGPHYS\<close>), and whether the event types have \<^verbatim>\<open>EV_REL\<close> or \<^verbatim>\<open>EV_ABS\<close>.
\<close>

datatype device_node =
    no_such_node
  | open_failed
  | opened int "(string \<times> string \<times> bool) option"

datatype FrameMode = FM_render | FM_other nat

text \<open>
  What \<^verbatim>\<open>open_window\<close> and the frame methods take from outside the file. The render
  context (\<^verbatim>\<open>glxGraphicsStateGuardian\<close>, not under src/) is known by a handle: \<open>new_gsg\<close> is
  the context created to share with the given one, with its pixel format chosen, and the
  \<open>gsg_\<close> fields are its members and answers. \<open>is_current d c\<close> is whether the connection,
  the drawable \<open>d\<close> and the context \<open>c\<close> are the current ones of GLX. The last four fields
  are the base-class methods (\<^verbatim>\<open>GraphicsOutput\<close>, not under src/) that the frame methods
  call.
\<close>

record render_collaborators =
  new_gsg :: "nat option \<Rightarrow> nat"
  gsg_subsumes :: "nat \<Rightarrow> nat \<Rightarrow> bool"
  gsg_visual :: "nat \<Rightarrow> XVisualInfo option"
  gsg_fbconfig :: "nat \<Rightarrow> nat option"
  gsg_context :: "nat \<Rightarrow> nat"
  gsg_is_valid :: "nat \<Rightarrow> bool"
  gsg_verify_hardware_software :: "nat \<Rightarrow> nat \<Rightarrow> bool"
  gsg_fb_properties :: "nat \<Rightarrow> nat"
  gsg_begin_frame :: "nat \<Rightarrow> bool"
  glXGetVisualFromFBConfig :: "nat \<Rightarrow> XVisualInfo option"
  fbconfig_rgba :: "nat \<Rightarrow> bool"
  visual_rgba :: "XVisualInfo \<Rightarrow> bool"
  XCreateColormap_id :: "nat \<Rightarrow> alloc \<Rightarrow> nat"
  XCreateWindow_id :: nat
  get_im :: "nat option"
  XCreateIC_id :: "nat option"
  is_current :: "nat \<Rightarrow> nat \<Rightarrow> bool"
  device_nodes :: "nat \<Rightarrow> device_node"
  copy_to_textures :: "window \<Rightarrow> window"
  trigger_flip :: "window \<Rightarrow> window"
  prepare_for_deletion :: "window \<Rightarrow> window"
  clear_cube_map_selection :: "window \<Rightarrow> window"


definition open_window_defaults :: "window \<Rightarrow> window" where
  "open_window_defaults w =
     (let w1 = (if \<not> has_origin (properties w)
                then w\<lparr>properties := set_origin (properties w) 0 0\<rparr> else w)
      in if \<not> has_size (properties w1)
         then w1\<lparr>properties := set_size (properties w1) 100 100\<rparr> else w1)"

text \<open>\<^verbatim>\<open>setup_colormap(GLXFBConfig)\<close> and \<^verbatim>\<open>setup_colormap(XVisualInfo *)\<close>.\<close>

definition setup_colormap_fbconfig :: "render_collaborators \<Rightarrow> window \<Rightarrow> nat \<Rightarrow> window" where
  "setup_colormap_fbconfig renv w fbconfig =
     (case glXGetVisualFromFBConfig renv fbconfig of
        None \<Rightarrow> w
      | Some visual_info \<Rightarrow>
          (case vi_class visual_info of
             PseudoColor \<Rightarrow>
               if fbconfig_rgba renv fbconfig then w\<lparr>colormap := 0\<rparr>
               else (send w (XCreateColormap (vi_visual visual_info) AllocAll))
                      \<lparr>colormap := XCreateColormap_id renv (vi_visual visual_info) AllocAll\<rparr>
           | TrueColor \<Rightarrow>
               (send w (XCreateColormap (vi_visual visual_info) AllocNone))
                 \<lparr>colormap := XCreateColormap_id renv (vi_visual visual_info) AllocNone\<rparr>
           | DirectColor \<Rightarrow>
               (send w (XCreateColormap (vi_visual visual_info) AllocNone))
                 \<lparr>colormap := XCreateColormap_id renv (vi_visual visual_info) AllocNone\<rparr>
           | StaticColor \<Rightarrow>
               (send w (XCreateColormap (vi_visual visual_info) AllocNone))
                 \<lparr>colormap := XCreateColormap_id renv (vi_visual visual_info) AllocNone\<rparr>
           | StaticGray \<Rightarrow>
               (send w (XCreateColormap (vi_visual visual_info) AllocNone))
                 \<lparr>colormap := XCreateColormap_id renv (vi_visual visual_info) AllocNone\<rparr>
           | GrayScale \<Rightarrow>
               (send w (XCreateColormap (vi_visual visual_info) AllocNone))
                 \<lparr>colormap := XCreateColormap_id renv (vi_visual visual_info) AllocNone\<rparr>
           | other_class c \<Rightarrow> w))"

definition setup_colormap_visual ::
  "render_collaborators \<Rightarrow> window \<Rightarrow> XVisualInfo \<Rightarrow> window" where
  "setup_colormap_visual renv w visual =
     (case vi_class visual of
        PseudoColor \<Rightarrow>
          if visual_rgba renv visual then w\<lparr>colormap := 0\<rparr>
          else (send w (XCreateColormap (vi_visual visual) AllocAll))
                 \<lparr>colormap := XCreateColormap_id renv (vi_visual visual) AllocAll\<rparr>
      | TrueColor \<Rightarrow>
          (send w (XCreateColormap (vi_visual visual) AllocNone))
            \<lparr>colormap := XCreateColormap_id renv (vi_visual visual) AllocNone\<rparr>
      | DirectColor \<Rightarrow>
          (send w (XCreateColormap (vi_visual visual) AllocNone))
            \<lparr>colormap := XCreateColormap_id renv (vi_visual visual) AllocNone\<rparr>
      | StaticColor \<Rightarrow>
          (send w (XCreateColormap (vi_visual visual) AllocNone))
            \<lparr>colormap := XCreateColormap_id renv (vi_visual visual) AllocNone\<rparr>
      | StaticGray \<Rightarrow>
          (send w (XCreateColormap (vi_visual visual) AllocNone))
            \<lparr>colormap := XCreateColormap_id renv (vi_visual visual) AllocNone\<rparr>
      | GrayScale \<Rightarrow>
          (send w (XCreateColormap (vi_visual visual) AllocNone))
            \<lparr>colormap := XCreateColormap_id renv (vi_visual visual) AllocNone\<rparr>
      | other_class c \<Rightarrow> w)"

definition open_window_colormap ::
  "render_collaborators \<Rightarrow> window \<Rightarrow> nat \<Rightarrow> XVisualInfo \<Rightarrow> window" where
  "open_window_colormap renv w glxgsg visual_info =
     (case gsg_fbconfig renv glxgsg of
        Some fbconfig \<Rightarrow> setup_colormap_fbconfig renv w fbconfig
      | None \<Rightarrow> setup_colormap_visual renv w visual_info)"

text \<open>The event mask, the attributes and \<^verbatim>\<open>XCreateWindow\<close>; its answer is the native handle.\<close>

definition open_window_create ::
  "render_collaborators \<Rightarrow> window \<Rightarrow> XVisualInfo \<Rightarrow> window" where
  "open_window_create renv w visual_info =
     (let w1 = w\<lparr>event_mask :=
                   {ButtonPressMask, ButtonReleaseMask, KeyPressMask, KeyReleaseMask,
                    EnterWindowMask, LeaveWindowMask, PointerMotionMask, FocusChangeMask,
                    StructureNotifyMask}\<rparr>
      in (send w1 (XCreateWindow
                     (get_x_origin (properties w1), get_y_origin (properties w1))
                     (get_x_size (properties w1), get_y_size (properties w1))
                     (vi_depth visual_info) (vi_visual visual_info) (colormap w1)
                     (event_mask w1)))
           \<lparr>xwindow := XCreateWindow_id renv\<rparr>)"

definition open_window_ic :: "render_collaborators \<Rightarrow> window \<Rightarrow> window" where
  "open_window_ic renv w =
     (case get_im renv of
        None \<Rightarrow> w\<lparr>ic := None\<rparr>
      | Some im \<Rightarrow> w\<lparr>ic := XCreateIC_id renv\<rparr>)"

definition open_window_cursor :: "window \<Rightarrow> window" where
  "open_window_cursor w =
     (if get_cursor_hidden (properties w)
      then send w (XDefineCursor (xwindow w) hidden_cursor) else w)"

text \<open>
  \<^verbatim>\<open>open_raw_mice\<close>: the nodes 0 to 63 in order, stopping at the first that does not exist. A
  node that opens, answers its \<^verbatim>\<open>ioctl\<close> calls and reports pointer motion becomes a new
  input device under the label made of its name and identifier, every character that is
  not a letter or a digit replaced by an underscore.
\<close>

definition safe_char :: "char \<Rightarrow> char" where
  "safe_char c =
     (if ((of_char c :: nat) < of_char CHR ''a'' \<or> (of_char c :: nat) > of_char CHR ''z'') \<and>
         ((of_char c :: nat) < of_char CHR ''A'' \<or> (of_char c :: nat) > of_char CHR ''Z'') \<and>
         ((of_char c :: nat) < of_char CHR ''0'' \<or> (of_char c :: nat) > of_char CHR ''9'')
      then CHR ''_'' else c)"

text \<open>
  Modelled from the spec: \<^verbatim>\<open>GraphicsWindowInputDevice::pointer_only\<close> and
  \<^verbatim>\<open>add_input_device\<close> are not under src/; an accepted device becomes a new slot, appended
  to the sequence of input devices, with no events under its label.
\<close>

definition pointer_only :: "string \<Rightarrow> input_device" where
  "pointer_only name =
     \<lparr>device_name = name, in_window = False, pointer_x = 0, pointer_y = 0, button_events = []\<rparr>"

fun scan_raw_mice :: "render_collaborators \<Rightarrow> nat list \<Rightarrow> window \<Rightarrow> window" where
  "scan_raw_mice renv [] w = w"
| "scan_raw_mice renv (i # rest) w =
     (case device_nodes renv i of
        no_such_node \<Rightarrow> w
      | open_failed \<Rightarrow> scan_raw_mice renv rest w
      | opened dfd None \<Rightarrow> scan_raw_mice renv rest w
      | opened dfd (Some (name, uniq, pointer)) \<Rightarrow>
          if pointer then
            let full_id = map safe_char name @ ''.'' @ map safe_char uniq;
                info = \<lparr>fd = dfd, input_device_index = length (input_devices w), io_buffer = []\<rparr>
            in scan_raw_mice renv rest
                 (w\<lparr>mouse_device_info := mouse_device_info w @ [info],
                    input_devices := input_devices w @ [pointer_only full_id]\<rparr>)
          else scan_raw_mice renv rest w)"

definition open_raw_mice :: "render_collaborators \<Rightarrow> window \<Rightarrow> window" where
  "open_raw_mice renv w = scan_raw_mice renv [0..<64] w"


subsection \<open>Frames\<close>




subsection \<open>Example states\<close>

definition device_ex :: input_device where
  "device_ex =
     \<lparr>device_name = ''keyboard/mouse'', in_window = True, pointer_x = 0, pointer_y = 0,
      button_events = []\<rparr>"

text \<open>An open, focused 100 by 100 window with the primary device and one raw mouse.\<close>

definition window_ex :: window where
  "window_ex =
     \<lparr>pipe = True,
      properties = set_open (set_size (set_foreground WindowProperties True) 100 100) True,
      input_devices = [device_ex, device_ex],
      gsg = Some 1, active = True, close_request_event = [],
      xwindow = 7, ic = None, awaiting_configure = False,
      mouse_device_info = [\<lparr>fd = 5, input_device_index = 1, io_buffer = []\<rparr>],
      colormap = 3, event_mask = {}, fb_properties = 0, one_shot = False,
      xlog = [], thrown = []\<rparr>"

text \<open>
  Collaborators for the examples: a keyboard mapping with the key \<open>a\<close> on keycode 38 and
  Num Lock (a keysym that \<^verbatim>\<open>get_button\<close> does not map) on keycode 77, an input method that
  composes the character of the key, buttons whose ASCII equivalent is the character of an
  \<open>ascii_key\<close>, a 1024 by 768 display, and base-class steps that change nothing.
\<close>

definition env_ex :: collaborators where
  "env_ex =
     \<lparr>XLookupKeysym = (\<lambda>e. if keycode e = 38 then 0x61 else if keycode e = 77 then 0xff7f else 0),
      XwcLookupString = (\<lambda>e. if keycode e = 38 then [97] else []),
      has_ascii_equivalent = (\<lambda>b. case b of ascii_key c \<Rightarrow> True | _ \<Rightarrow> False),
      get_ascii_equivalent = (\<lambda>b. case b of ascii_key c \<Rightarrow> int (of_char c) | _ \<Rightarrow> 0),
      get_display_width = 1024,
      get_display_height = 768,
      glx_wheel_up_button = 4,
      glx_wheel_down_button = 5,
      GraphicsWindow_set_properties_now = (\<lambda>w p. (w, p)),
      GraphicsWindow_process_events = (\<lambda>w. w),
      reads = (\<lambda>d. ([], would_block)),
      sizeof_input_event = 24,
      decode_input_event = (\<lambda>bytes. \<lparr>ie_type = 0, ie_code = 0, ie_value = 0\<rparr>)\<rparr>"

definition event_ex :: "event_data \<Rightarrow> XEvent" where
  "event_ex d = \<lparr>ev_window = 7, ev_filtered = False, ev_data = d\<rparr>"

text \<open>The example window with the fixed-size flag set.\<close>

definition fixed_ex :: window where
  "fixed_ex = window_ex\<lparr>properties := (properties window_ex)\<lparr>p_fixed_size := Some True\<rparr>\<rparr>"

text \<open>
  Key events for the examples: the key \<open>a\<close> (keycode 38) and Num Lock (keycode 77), each
  released at time 1000 and pressed again at time 1001.
\<close>

definition key_ex :: "nat \<Rightarrow> Time \<Rightarrow> XKeyEvent" where
  "key_ex k t = \<lparr>keycode = k, key_time = t, key_x = 10, key_y = 20\<rparr>"


section \<open>Properties\<close>

declare drain.simps [simp del]

subsection \<open>Moving the pointer\<close>

text \<open>
  C8. \<^verbatim>\<open>move_pointer(0, x, y)\<close> answers false and returns the window as it was when the
  window is not in the foreground or the primary pointer is outside it; otherwise it
  answers true and the primary device's pointer is at \<open>(x, y)\<close>. For a device index
  \<open>i \<ge> 1\<close> it answers false exactly when \<open>i\<close> is not the index of a slot of
  \<^verbatim>\<open>_input_devices\<close> (and then changes nothing); otherwise that slot's pointer is at
  \<open>(x, y)\<close> and the answer is true. Slot 0 is there from the constructor on, which adds
  the keyboard and mouse device; the success case for device 0 is stated for such a window.
\<close>

theorem move_pointer_result:
  "(\<not> get_foreground (properties w) \<or> \<not> in_window (input_devices w ! 0)
      \<longrightarrow> move_pointer w 0 x y = (False, w)) \<and>
   (input_devices w \<noteq> [] \<and> get_foreground (properties w) \<and> in_window (input_devices w ! 0)
      \<longrightarrow> fst (move_pointer w 0 x y) \<and>
          pointer_x (input_devices (snd (move_pointer w 0 x y)) ! 0) = x \<and>
          pointer_y (input_devices (snd (move_pointer w 0 x y)) ! 0) = y) \<and>
   (1 \<le> i \<longrightarrow>
      (\<not> fst (move_pointer w i x y)) = (\<not> nat i < length (input_devices w)) \<and>
      (\<not> nat i < length (input_devices w) \<longrightarrow> move_pointer w i x y = (False, w)) \<and>
      (nat i < length (input_devices w) \<longrightarrow>
          pointer_x (input_devices (snd (move_pointer w i x y)) ! nat i) = x \<and>
          pointer_y (input_devices (snd (move_pointer w i x y)) ! nat i) = y))"
  by (auto simp: move_pointer_def Let_def set_pointer_in_window_def send_def)

theorem move_pointer_result_witness:
  "move_pointer (window_ex\<lparr>properties := WindowProperties\<rparr>) 0 3 4 =
     (False, window_ex\<lparr>properties := WindowProperties\<rparr>) \<and>
   fst (move_pointer window_ex 0 3 4) \<and>
   pointer_x (input_devices (snd (move_pointer window_ex 0 3 4)) ! 0) = 3 \<and>
   pointer_y (input_devices (snd (move_pointer window_ex 0 3 4)) ! 0) = 4 \<and>
   fst (move_pointer window_ex 1 3 4) \<and>
   pointer_x (input_devices (snd (move_pointer window_ex 1 3 4)) ! 1) = 3 \<and>
   move_pointer window_ex 2 3 4 = (False, window_ex)"
proof -
  have fg: "get_foreground (properties window_ex)"
    by (simp add: window_ex_def set_open_def get_foreground_def flag_def set_foreground_def set_size_def)
  have nfg: "\<not> get_foreground (properties (window_ex\<lparr>properties := WindowProperties\<rparr>))"
    by (simp add: WindowProperties_def get_foreground_def flag_def)
  have inw: "in_window (input_devices window_ex ! 0)"
    by (simp add: window_ex_def set_open_def device_ex_def)
  have len: "input_devices window_ex \<noteq> []" "length (input_devices window_ex) = 2"
    by (simp_all add: window_ex_def set_open_def)
  show ?thesis
    using move_pointer_result [of "window_ex\<lparr>properties := WindowProperties\<rparr>" 3 4 1]
      move_pointer_result [of window_ex 3 4 1] move_pointer_result [of window_ex 3 4 2]
      fg nfg inw len
    by simp
qed

subsection \<open>Closing\<close>

lemma close_window_handles:
  "gsg (close_window w) = None" "ic (close_window w) = None" "xwindow (close_window w) = 0"
  by (cases "gsg w"; cases "ic w"; cases "xwindow w = 0";
      simp add: close_window_def GraphicsWindow_close_window_def Let_def send_def)+

lemma close_window_active:
  "active (close_window w) = (if gsg w \<noteq> None then False else active w)"
  by (cases "gsg w"; cases "ic w"; cases "xwindow w = 0")
     (simp_all add: close_window_def GraphicsWindow_close_window_def Let_def send_def)

lemma close_window_xlog:
  "xlog (close_window w) =
     xlog w @ (if gsg w \<noteq> None then [glXMakeCurrent None None] else [])
            @ (case ic w of Some i \<Rightarrow> [XDestroyIC i] | None \<Rightarrow> [])
            @ (if xwindow w \<noteq> 0 then [XDestroyWindow (xwindow w), XFlush] else [])"
  by (cases "gsg w"; cases "ic w"; cases "xwindow w = 0")
     (simp_all add: close_window_def GraphicsWindow_close_window_def Let_def send_def)

lemma close_window_closed:
  "gsg w = None \<Longrightarrow> ic w = None \<Longrightarrow> xwindow w = 0 \<Longrightarrow> close_window w = w"
  by (simp add: close_window_def GraphicsWindow_close_window_def)

text \<open>
  C9. \<^verbatim>\<open>close_window\<close> is idempotent: from any state of the three handles (render
  context bound or not, input context present or not, native handle null or not) a second
  call leaves the state of the first. After the first call all three are null, and the
  requests it sent are exactly the guarded ones: the context binding is released only if a
  context was bound, the input context is destroyed only if there was one, the native
  window is destroyed and the connection flushed only if the handle was non-null.
\<close>

theorem close_window_idempotent:
  "close_window (close_window w) = close_window w \<and>
   gsg (close_window w) = None \<and> ic (close_window w) = None \<and> xwindow (close_window w) = 0 \<and>
   active (close_window w) = (if gsg w \<noteq> None then False else active w) \<and>
   xlog (close_window w) =
     xlog w @ (if gsg w \<noteq> None then [glXMakeCurrent None None] else [])
            @ (case ic w of Some i \<Rightarrow> [XDestroyIC i] | None \<Rightarrow> [])
            @ (if xwindow w \<noteq> 0 then [XDestroyWindow (xwindow w), XFlush] else [])"
proof -
  have "close_window (close_window w) = close_window w"
    by (rule close_window_closed) (rule close_window_handles)+
  then show ?thesis
    using close_window_handles [of w] close_window_active [of w] close_window_xlog [of w]
    by blast
qed

theorem close_window_idempotent_witness:
  "close_window (close_window window_ex) = close_window window_ex \<and>
   xlog (close_window window_ex) = [glXMakeCurrent None None, XDestroyWindow 7, XFlush] \<and>
   xlog (close_window (close_window window_ex)) = xlog (close_window window_ex)"
proof -
  have "gsg window_ex = Some 1" "ic window_ex = None" "xwindow window_ex = 7"
    "xlog window_ex = []"
    by (simp_all add: window_ex_def set_open_def)
  then show ?thesis
    using close_window_idempotent [of window_ex] by simp
qed

subsection \<open>What the key handlers leave alone\<close>

lemma update_device_fields [simp]:
  "pipe (update_device w i f) = pipe w"
  "properties (update_device w i f) = properties w"
  "gsg (update_device w i f) = gsg w"
  "active (update_device w i f) = active w"
  "close_request_event (update_device w i f) = close_request_event w"
  "xwindow (update_device w i f) = xwindow w"
  "ic (update_device w i f) = ic w"
  "awaiting_configure (update_device w i f) = awaiting_configure w"
  "mouse_device_info (update_device w i f) = mouse_device_info w"
  "xlog (update_device w i f) = xlog w"
  "thrown (update_device w i f) = thrown w"
  by (simp_all add: update_device_def)

lemma handle_keyrelease_fields [simp]:
  "pipe (handle_keyrelease env w e) = pipe w"
  "properties (handle_keyrelease env w e) = properties w"
  "gsg (handle_keyrelease env w e) = gsg w"
  "active (handle_keyrelease env w e) = active w"
  "close_request_event (handle_keyrelease env w e) = close_request_event w"
  "xwindow (handle_keyrelease env w e) = xwindow w"
  "ic (handle_keyrelease env w e) = ic w"
  "awaiting_configure (handle_keyrelease env w e) = awaiting_configure w"
  "mouse_device_info (handle_keyrelease env w e) = mouse_device_info w"
  "xlog (handle_keyrelease env w e) = xlog w"
  "thrown (handle_keyrelease env w e) = thrown w"
  by (simp_all add: handle_keyrelease_def Let_def)

lemma handle_keypress_fields [simp]:
  "pipe (handle_keypress env w e) = pipe w"
  "properties (handle_keypress env w e) = properties w"
  "gsg (handle_keypress env w e) = gsg w"
  "active (handle_keypress env w e) = active w"
  "close_request_event (handle_keypress env w e) = close_request_event w"
  "xwindow (handle_keypress env w e) = xwindow w"
  "ic (handle_keypress env w e) = ic w"
  "awaiting_configure (handle_keypress env w e) = awaiting_configure w"
  "mouse_device_info (handle_keypress env w e) = mouse_device_info w"
  "xlog (handle_keypress env w e) = xlog w"
  "thrown (handle_keypress env w e) = thrown w"
  by (simp_all add: handle_keypress_def Let_def)

lemma handle_keystroke_fields [simp]:
  "pipe (handle_keystroke env w e) = pipe w"
  "properties (handle_keystroke env w e) = properties w"
  "gsg (handle_keystroke env w e) = gsg w"
  "active (handle_keystroke env w e) = active w"
  "close_request_event (handle_keystroke env w e) = close_request_event w"
  "xwindow (handle_keystroke env w e) = xwindow w"
  "ic (handle_keystroke env w e) = ic w"
  "awaiting_configure (handle_keystroke env w e) = awaiting_configure w"
  "mouse_device_info (handle_keystroke env w e) = mouse_device_info w"
  "xlog (handle_keystroke env w e) = xlog w"
  "thrown (handle_keystroke env w e) = thrown w"
  by (simp_all add: handle_keystroke_def Let_def)

subsection \<open>Processing events on a closed window\<close>

text \<open>
  C10. When the native handle is null once the base-class step of \<^verbatim>\<open>process_events\<close> has
  run, the method returns there: the result is the window exactly as the base-class step
  left it and the event queue as it was, so no event is drained, no raw device is polled,
  no input is emitted and no request is sent.
\<close>

theorem process_events_null_handle:
  "xwindow (GraphicsWindow_process_events env w) = 0 \<Longrightarrow>
   process_events env w q = (GraphicsWindow_process_events env w, q)"
  by (simp add: process_events_def)

theorem process_events_null_handle_witness:
  "xwindow (GraphicsWindow_process_events env_ex (close_window window_ex)) = 0 \<and>
   process_events env_ex (close_window window_ex) [event_ex FocusIn, (event_ex FocusOut)\<lparr>ev_window := 0\<rparr>] =
     (close_window window_ex, [event_ex FocusIn, (event_ex FocusOut)\<lparr>ev_window := 0\<rparr>])"
proof -
  have base: "GraphicsWindow_process_events env_ex (close_window window_ex) = close_window window_ex"
    by (simp add: env_ex_def)
  have null: "xwindow (GraphicsWindow_process_events env_ex (close_window window_ex)) = 0"
    by (simp only: base close_window_handles)
  show ?thesis
    using process_events_null_handle [OF null] null base by simp
qed

subsection \<open>Configure notifications\<close>

lemma loop_body_ConfigureNotify:
  "ev_data event = ConfigureNotify width height \<Longrightarrow>
   loop_body env w g event =
     switch_event env (case g of Some r \<Rightarrow> handle_keyrelease env w r | None \<Rightarrow> w)
       (ConfigureNotify width height)"
  by (cases g) (simp_all add: loop_body_def)

subsection \<open>Window-manager hints\<close>

lemma type_data_eq:
  "type_data p =
     (if get_fullscreen p then [net_wm_window_type_fullscreen]
      else if get_undecorated p then [net_wm_window_type_splash] else [])"
  by (cases "p_z_order p"; cases "get_z_order p")
     (simp_all add: type_data_def wm_data_def Let_def has_z_order_def)

lemma state_data_eq:
  "state_data p =
     (if get_fullscreen p then [net_wm_state_fullscreen] else []) @
     (case p_z_order p of
        Some Z_bottom \<Rightarrow> [net_wm_state_below]
      | Some Z_top \<Rightarrow> [net_wm_state_above]
      | _ \<Rightarrow> [])"
proof (cases "p_z_order p")
  case None
  then show ?thesis
    by (simp add: state_data_def wm_data_def Let_def has_z_order_def)
next
  case (Some z)
  then show ?thesis
    by (cases z) (simp_all add: state_data_def wm_data_def Let_def has_z_order_def get_z_order_def)
qed

lemma set_data_eq:
  "set_data p =
     SetAction net_wm_state_fullscreen
       (if get_fullscreen p then net_wm_state_add else net_wm_state_remove) #
     (case p_z_order p of
        None \<Rightarrow> []
      | Some Z_bottom \<Rightarrow>
          [SetAction net_wm_state_below net_wm_state_add,
           SetAction net_wm_state_above net_wm_state_remove]
      | Some Z_normal \<Rightarrow>
          [SetAction net_wm_state_below net_wm_state_remove,
           SetAction net_wm_state_above net_wm_state_remove]
      | Some Z_top \<Rightarrow>
          [SetAction net_wm_state_below net_wm_state_remove,
           SetAction net_wm_state_above net_wm_state_add])"
proof (cases "p_z_order p")
  case None
  then show ?thesis
    by (simp add: set_data_def wm_data_def Let_def has_z_order_def)
next
  case (Some z)
  then show ?thesis
    by (cases z) (simp_all add: set_data_def wm_data_def Let_def has_z_order_def get_z_order_def)
qed

lemma wm_data_lengths:
  "length (type_data p) < 32" "length (state_data p) < 32" "length (set_data p) < 32"
proof -
  show "length (type_data p) < 32"
    by (simp add: type_data_eq)
  show "length (state_data p) < 32"
    by (cases "p_z_order p"; cases "get_z_order p")
       (simp_all add: state_data_eq get_z_order_def)
  show "length (set_data p) < 32"
    by (cases "p_z_order p"; cases "get_z_order p")
       (simp_all add: set_data_eq get_z_order_def)
qed

lemma xlog_send: "xlog (send w r) = xlog w @ [r]"
  by (simp add: send_def)

text \<open>What \<^verbatim>\<open>set_wm_properties\<close> sends, in order.\<close>

lemma set_wm_properties_xlog:
  "xlog (set_wm_properties w p already_mapped) =
     xlog w @
     [XChangeProperty (xwindow w) net_wm_window_type (type_data p),
      XChangeProperty (xwindow w) net_wm_state (state_data p)] @
     (if already_mapped
      then map (\<lambda>a. case a of SetAction state action \<Rightarrow>
                  XSendEvent (xwindow w) net_wm_state action state) (set_data p)
      else []) @
     [XSetWMProperties (xwindow w) (if has_title p then Some (get_title p) else None)
        (size_hints p)
        (if has_minimized p \<and> get_minimized p then IconicState else NormalState)
        (if get_undecorated p then Some ''Undecorated'' else None),
      XSetWMProtocols (xwindow w) [wm_delete_window]]"
proof -
  have fold: "xlog (foldl (\<lambda>v a. case a of SetAction state action \<Rightarrow>
                    send v (XSendEvent (xwindow w) net_wm_state action state)) v xs) =
              xlog v @ map (\<lambda>a. case a of SetAction state action \<Rightarrow>
                    XSendEvent (xwindow w) net_wm_state action state) xs" for v xs
    by (induction xs arbitrary: v) (simp_all add: send_def split: SetAction.splits)
  show ?thesis
    by (cases already_mapped)
       (simp_all add: set_wm_properties_def Let_def wm_data_lengths fold xlog_send)
qed

text \<open>
  C6. With fullscreen true in the property set, the fullscreen type atom is in the
  window-type list, the fullscreen state atom is in the window-state list, and the action
  list has (fullscreen, add) and not (fullscreen, remove). With fullscreen false (or
  absent) the action list has (fullscreen, remove) and not (fullscreen, add), and neither
  list contains either fullscreen atom. The two lists are what \<^verbatim>\<open>set_wm_properties\<close> writes
  to the window, and for a mapped window each action is sent to the root window.
\<close>

theorem fullscreen_hints:
  "(get_fullscreen p \<longrightarrow>
      net_wm_window_type_fullscreen \<in> set (type_data p) \<and>
      net_wm_state_fullscreen \<in> set (state_data p) \<and>
      SetAction net_wm_state_fullscreen net_wm_state_add \<in> set (set_data p) \<and>
      SetAction net_wm_state_fullscreen net_wm_state_remove \<notin> set (set_data p)) \<and>
   (\<not> get_fullscreen p \<longrightarrow>
      SetAction net_wm_state_fullscreen net_wm_state_remove \<in> set (set_data p) \<and>
      SetAction net_wm_state_fullscreen net_wm_state_add \<notin> set (set_data p) \<and>
      net_wm_window_type_fullscreen \<notin> set (type_data p) \<and>
      net_wm_state_fullscreen \<notin> set (type_data p) \<and>
      net_wm_window_type_fullscreen \<notin> set (state_data p) \<and>
      net_wm_state_fullscreen \<notin> set (state_data p)) \<and>
   XChangeProperty (xwindow w) net_wm_window_type (type_data p)
     \<in> set (xlog (set_wm_properties w p already_mapped)) \<and>
   XChangeProperty (xwindow w) net_wm_state (state_data p)
     \<in> set (xlog (set_wm_properties w p already_mapped)) \<and>
   (\<forall>state action. SetAction state action \<in> set (set_data p) \<longrightarrow>
      XSendEvent (xwindow w) net_wm_state action state
        \<in> set (xlog (set_wm_properties w p True)))"
proof -
  have lists: "(get_fullscreen p \<longrightarrow>
      net_wm_window_type_fullscreen \<in> set (type_data p) \<and>
      net_wm_state_fullscreen \<in> set (state_data p) \<and>
      SetAction net_wm_state_fullscreen net_wm_state_add \<in> set (set_data p) \<and>
      SetAction net_wm_state_fullscreen net_wm_state_remove \<notin> set (set_data p)) \<and>
   (\<not> get_fullscreen p \<longrightarrow>
      SetAction net_wm_state_fullscreen net_wm_state_remove \<in> set (set_data p) \<and>
      SetAction net_wm_state_fullscreen net_wm_state_add \<notin> set (set_data p) \<and>
      net_wm_window_type_fullscreen \<notin> set (type_data p) \<and>
      net_wm_state_fullscreen \<notin> set (type_data p) \<and>
      net_wm_window_type_fullscreen \<notin> set (state_data p) \<and>
      net_wm_state_fullscreen \<notin> set (state_data p))"
    by (cases "p_z_order p"; cases "get_z_order p")
       (simp_all add: type_data_eq state_data_eq set_data_eq get_z_order_def)
  have sent: "XSendEvent (xwindow w) net_wm_state action state
        \<in> set (xlog (set_wm_properties w p True))"
    if "SetAction state action \<in> set (set_data p)" for state action
  proof -
    have "(case SetAction state action of SetAction s a \<Rightarrow> XSendEvent (xwindow w) net_wm_state a s)
          \<in> (\<lambda>a. case a of SetAction s a \<Rightarrow> XSendEvent (xwindow w) net_wm_state a s) ` set (set_data p)"
      using that by (rule imageI)
    then show ?thesis
      by (simp add: set_wm_properties_xlog)
  qed
  show ?thesis
    using lists sent by (simp add: set_wm_properties_xlog)
qed

theorem fullscreen_hints_witness:
  "type_data (set_fullscreen WindowProperties True) = [net_wm_window_type_fullscreen] \<and>
   state_data (set_fullscreen WindowProperties True) = [net_wm_state_fullscreen] \<and>
   set_data (set_fullscreen WindowProperties True) =
     [SetAction net_wm_state_fullscreen net_wm_state_add] \<and>
   type_data (set_fullscreen WindowProperties False) = [] \<and>
   state_data (set_fullscreen WindowProperties False) = [] \<and>
   set_data (set_fullscreen WindowProperties False) =
     [SetAction net_wm_state_fullscreen net_wm_state_remove] \<and>
   XSendEvent 7 net_wm_state net_wm_state_add net_wm_state_fullscreen
     \<in> set (xlog (set_wm_properties window_ex (set_fullscreen WindowProperties True) True))"
proof -
  have t: "get_fullscreen (set_fullscreen WindowProperties True)"
    and f: "\<not> get_fullscreen (set_fullscreen WindowProperties False)"
    and z: "p_z_order (set_fullscreen WindowProperties b) = None"
    and u: "\<not> get_undecorated (set_fullscreen WindowProperties b)" for b
    by (simp_all add: set_fullscreen_def WindowProperties_def get_fullscreen_def flag_def
        get_undecorated_def)
  have x: "xwindow window_ex = 7"
    by (simp add: window_ex_def set_open_def)
  have lists: "type_data (set_fullscreen WindowProperties True) = [net_wm_window_type_fullscreen]"
    "state_data (set_fullscreen WindowProperties True) = [net_wm_state_fullscreen]"
    "set_data (set_fullscreen WindowProperties True) =
       [SetAction net_wm_state_fullscreen net_wm_state_add]"
    "type_data (set_fullscreen WindowProperties False) = []"
    "state_data (set_fullscreen WindowProperties False) = []"
    "set_data (set_fullscreen WindowProperties False) =
       [SetAction net_wm_state_fullscreen net_wm_state_remove]"
    by (simp_all add: type_data_eq state_data_eq set_data_eq t f z u)
  show ?thesis
    using fullscreen_hints [of "set_fullscreen WindowProperties True" window_ex True]
      fullscreen_hints [of "set_fullscreen WindowProperties False" window_ex True] t f x lists
    by simp
qed

text \<open>
  C7. For each z-order value (and with none requested) the action list never holds both an
  add and a remove action for the same atom. The action list is a function of the
  fullscreen flag and the z-order alone, so the same z-order value gives the same actions
  each time; and once a z-order has been applied (stored in the property model), applying
  a delta with the same z-order again builds the same action list.
\<close>

theorem z_order_actions:
  "(\<forall>a. \<not> (SetAction a net_wm_state_add \<in> set (set_data p) \<and>
            SetAction a net_wm_state_remove \<in> set (set_data p))) \<and>
   (p_z_order p' = p_z_order p \<and> get_fullscreen p' = get_fullscreen p \<longrightarrow>
      set_data p' = set_data p) \<and>
   (p_z_order d = Some z \<longrightarrow>
      set_data (add_properties (set_z_order p z) d) = set_data (add_properties p d)) \<and>
   set_data (set_z_order WindowProperties Z_bottom) =
     [SetAction net_wm_state_fullscreen net_wm_state_remove,
      SetAction net_wm_state_below net_wm_state_add,
      SetAction net_wm_state_above net_wm_state_remove] \<and>
   set_data (set_z_order WindowProperties Z_normal) =
     [SetAction net_wm_state_fullscreen net_wm_state_remove,
      SetAction net_wm_state_below net_wm_state_remove,
      SetAction net_wm_state_above net_wm_state_remove] \<and>
   set_data (set_z_order WindowProperties Z_top) =
     [SetAction net_wm_state_fullscreen net_wm_state_remove,
      SetAction net_wm_state_below net_wm_state_remove,
      SetAction net_wm_state_above net_wm_state_add]"
proof -
  have consistent: "\<not> (SetAction a net_wm_state_add \<in> set (set_data p) \<and>
            SetAction a net_wm_state_remove \<in> set (set_data p))" for a
    by (cases "p_z_order p"; cases "get_z_order p"; cases "get_fullscreen p")
       (auto simp: set_data_eq get_z_order_def)
  have same: "set_data q' = set_data q"
    if "p_z_order q' = p_z_order q" "get_fullscreen q' = get_fullscreen q" for q q'
    using that by (simp add: set_data_eq)
  have again: "set_data (add_properties (set_z_order p z) d) = set_data (add_properties p d)"
    if "p_z_order d = Some z"
  proof (rule same)
    show "p_z_order (add_properties (set_z_order p z) d) = p_z_order (add_properties p d)"
      using that by (simp add: add_properties_def override_def)
    show "get_fullscreen (add_properties (set_z_order p z) d) =
          get_fullscreen (add_properties p d)"
      by (simp add: add_properties_def get_fullscreen_def set_z_order_def)
  qed
  have only: "p_z_order (set_z_order WindowProperties v) = Some v"
    "\<not> get_fullscreen (set_z_order WindowProperties v)" for v
    by (simp_all add: set_z_order_def WindowProperties_def get_fullscreen_def flag_def)
  show ?thesis
    using consistent same [of p' p] again by (simp add: set_data_eq only)
qed

theorem z_order_actions_witness:
  "p_z_order (set_z_order WindowProperties Z_top) = Some Z_top \<and>
   set_data (add_properties (set_z_order (properties window_ex) Z_top)
               (set_z_order WindowProperties Z_top)) =
   set_data (add_properties (properties window_ex) (set_z_order WindowProperties Z_top)) \<and>
   SetAction net_wm_state_above net_wm_state_add
     \<in> set (set_data (set_z_order WindowProperties Z_top)) \<and>
   SetAction net_wm_state_above net_wm_state_remove
     \<notin> set (set_data (set_z_order WindowProperties Z_top))"
proof -
  have z: "p_z_order (set_z_order WindowProperties Z_top) = Some Z_top"
    by (simp add: set_z_order_def)
  show ?thesis
    using z_order_actions [where p = "properties window_ex"
        and d = "set_z_order WindowProperties Z_top" and z = Z_top] z
    by simp
qed

subsection \<open>Key repeat\<close>

lemma time_within_one: "(t' - t \<le> 1) = (t' = t \<or> t' = t + 1)" for t t' :: Time
proof -
  have "(t' - t \<le> 1) = (t' - t = 0 \<or> t' - t = 1)"
    by (auto simp: word_le_less_eq word_less_1)
  also have "\<dots> = (t' = t \<or> t' = t + 1)"
    by (auto simp: algebra_simps)
  finally show ?thesis .
qed

lemma button_events_foldl_keystroke:
  "button_events (foldl keystroke d cs) = button_events d @ map Keystroke cs"
  by (induction cs arbitrary: d) (simp_all add: keystroke_def)

lemma length_update_device [simp]:
  "length (input_devices (update_device w i f)) = length (input_devices w)"
  by (simp add: update_device_def)

lemma primary_update_device:
  "input_devices w \<noteq> [] \<Longrightarrow> input_devices (update_device w 0 f) ! 0 = f (input_devices w ! 0)"
  by (simp add: update_device_def)

lemma handle_keystroke_emits:
  assumes "input_devices w \<noteq> []"
  shows "button_events (input_devices (handle_keystroke env w e) ! 0) =
         button_events (input_devices w ! 0) @
         (if ic w \<noteq> None then map Keystroke (XwcLookupString env e)
          else if has_ascii_equivalent env (get_button env e)
               then [Keystroke (get_ascii_equivalent env (get_button env e))] else [])"
proof -
  let ?w1 = "update_device w 0 (\<lambda>d. set_pointer_in_window d (key_x e) (key_y e))"
  have ne: "input_devices ?w1 \<noteq> []"
    using assms by (simp add: update_device_def)
  have base: "button_events (input_devices ?w1 ! 0) = button_events (input_devices w ! 0)"
    using assms by (simp add: primary_update_device set_pointer_in_window_def)
  show ?thesis
    using base ne
    by (simp add: handle_keystroke_def Let_def primary_update_device
        button_events_foldl_keystroke keystroke_def)
qed

lemma handle_keypress_emits:
  assumes "input_devices w \<noteq> []"
  shows "button_events (input_devices (handle_keypress env w e) ! 0) =
         button_events (input_devices w ! 0) @
         (if get_button env e \<noteq> none then [ButtonDown (get_button env e)] else [])"
proof -
  let ?w1 = "update_device w 0 (\<lambda>d. set_pointer_in_window d (key_x e) (key_y e))"
  have ne: "input_devices ?w1 \<noteq> []"
    using assms by (simp add: update_device_def)
  have base: "button_events (input_devices ?w1 ! 0) = button_events (input_devices w ! 0)"
    using assms by (simp add: primary_update_device set_pointer_in_window_def)
  show ?thesis
    using base ne
    by (simp add: handle_keypress_def Let_def primary_update_device button_down_def)
qed

lemma handle_keyrelease_emits:
  assumes "input_devices w \<noteq> []"
  shows "button_events (input_devices (handle_keyrelease env w e) ! 0) =
         button_events (input_devices w ! 0) @
         (if get_button env e \<noteq> none then [ButtonUp (get_button env e)] else [])"
proof -
  let ?w1 = "update_device w 0 (\<lambda>d. set_pointer_in_window d (key_x e) (key_y e))"
  have ne: "input_devices ?w1 \<noteq> []"
    using assms by (simp add: update_device_def)
  have base: "button_events (input_devices ?w1 ! 0) = button_events (input_devices w ! 0)"
    using assms by (simp add: primary_update_device set_pointer_in_window_def)
  show ?thesis
    using base ne
    by (simp add: handle_keyrelease_def Let_def primary_update_device button_up_def)
qed

lemma handle_keystroke_devices:
  "input_devices w \<noteq> [] \<Longrightarrow> input_devices (handle_keystroke env w e) \<noteq> []"
  by (simp add: handle_keystroke_def Let_def update_device_def)

lemma drain_step:
  "XCheckIfEvent (xwindow w) q = Some (event, q') \<Longrightarrow>
   drain env w g q =
     (if ev_filtered event then drain env w g q'
      else drain env (fst (loop_body env w g event)) (snd (loop_body env w g event)) q')"
  by (subst drain.simps) (simp add: case_prod_beta)

lemma drain_end:
  "XCheckIfEvent (xwindow w) q = None \<Longrightarrow>
   drain env w g q = ((case g of Some r \<Rightarrow> handle_keyrelease env w r | None \<Rightarrow> w), q)"
  by (subst drain.simps) (simp split: option.splits)

lemma loop_body_repeat:
  "ev_data event = KeyPress e \<Longrightarrow> keycode e = keycode r \<Longrightarrow> key_time e - key_time r \<le> 1 \<Longrightarrow>
   loop_body env w (Some r) event = (handle_keypress env (handle_keystroke env w e) e, None)"
  by (simp add: loop_body_def)

lemma loop_body_genuine:
  "(\<And>e. ev_data event = KeyPress e \<Longrightarrow>
          \<not> (keycode e = keycode r \<and> key_time e - key_time r \<le> 1)) \<Longrightarrow>
   loop_body env w (Some r) event =
     switch_event env (handle_keyrelease env w r) (ev_data event)"
  by (cases "ev_data event") (auto simp: loop_body_def)

lemma get_button_ex:
  "get_button env_ex (key_ex 38 t) = ascii_key CHR ''a''"
  "get_button env_ex (key_ex 77 t) = none"
  by (simp_all add: get_button_def env_ex_def key_ex_def keysym_table_def)

lemma window_ex_fields:
  "input_devices window_ex \<noteq> []" "ic window_ex = None" "xwindow window_ex = 7"
  "button_events (input_devices window_ex ! 0) = []"
  by (simp_all add: window_ex_def set_open_def device_ex_def)

subsection \<open>Applying a property delta\<close>

lemma send_fields [simp]:
  "pipe (send w r) = pipe w"
  "properties (send w r) = properties w"
  "input_devices (send w r) = input_devices w"
  "gsg (send w r) = gsg w"
  "active (send w r) = active w"
  "close_request_event (send w r) = close_request_event w"
  "xwindow (send w r) = xwindow w"
  "ic (send w r) = ic w"
  "awaiting_configure (send w r) = awaiting_configure w"
  "mouse_device_info (send w r) = mouse_device_info w"
  "thrown (send w r) = thrown w"
  by (simp_all add: send_def)

lemma foldl_send_eq:
  "foldl (\<lambda>v a. case a of SetAction state action \<Rightarrow> send v (f state action)) w xs =
   w\<lparr>xlog := xlog w @ map (\<lambda>a. case a of SetAction state action \<Rightarrow> f state action) xs\<rparr>"
proof (induction xs arbitrary: w)
  case Nil
  show ?case by simp
next
  case (Cons a xs)
  show ?case
    by (cases a) (simp add: Cons.IH send_def)
qed

lemma set_wm_properties_fields [simp]:
  "pipe (set_wm_properties w p m) = pipe w"
  "properties (set_wm_properties w p m) = properties w"
  "input_devices (set_wm_properties w p m) = input_devices w"
  "gsg (set_wm_properties w p m) = gsg w"
  "xwindow (set_wm_properties w p m) = xwindow w"
  "ic (set_wm_properties w p m) = ic w"
  "awaiting_configure (set_wm_properties w p m) = awaiting_configure w"
  by (simp_all add: set_wm_properties_def Let_def wm_data_lengths foldl_send_eq)
lemma title_now_fields [simp]:
  "awaiting_configure (fst (title_now s)) = awaiting_configure (fst s)"
  "xlog (fst (title_now s)) = xlog (fst s)"
  "xwindow (fst (title_now s)) = xwindow (fst s)"
  "p_origin (properties (fst (title_now s))) = p_origin (properties (fst s))"
  "p_size (properties (fst (title_now s))) = p_size (properties (fst s))"
  "p_z_order (properties (fst (title_now s))) = p_z_order (properties (fst s))"
  "p_origin (snd (title_now s)) = p_origin (snd s)"
  "p_size (snd (title_now s)) = p_size (snd s)"
  "p_z_order (snd (title_now s)) = p_z_order (snd s)"
  "p_cursor_hidden (snd (title_now s)) = p_cursor_hidden (snd s)"
  "p_foreground (snd (title_now s)) = p_foreground (snd s)"
  by (cases s; simp add: title_now_def set_title_def clear_title_def)+

lemma fullscreen_now_fields [simp]:
  "awaiting_configure (fst (fullscreen_now s)) = awaiting_configure (fst s)"
  "xlog (fst (fullscreen_now s)) = xlog (fst s)"
  "xwindow (fst (fullscreen_now s)) = xwindow (fst s)"
  "p_origin (properties (fst (fullscreen_now s))) = p_origin (properties (fst s))"
  "p_size (properties (fst (fullscreen_now s))) = p_size (properties (fst s))"
  "p_z_order (properties (fst (fullscreen_now s))) = p_z_order (properties (fst s))"
  "p_origin (snd (fullscreen_now s)) = p_origin (snd s)"
  "p_size (snd (fullscreen_now s)) = p_size (snd s)"
  "p_z_order (snd (fullscreen_now s)) = p_z_order (snd s)"
  "p_cursor_hidden (snd (fullscreen_now s)) = p_cursor_hidden (snd s)"
  "p_foreground (snd (fullscreen_now s)) = p_foreground (snd s)"
  by (cases s; simp add: fullscreen_now_def set_fullscreen_def clear_fullscreen_def)+

lemma cursor_hidden_now_fields [simp]:
  "awaiting_configure (fst (cursor_hidden_now s)) = awaiting_configure (fst s)"
  "xlog (fst (cursor_hidden_now s)) =
     xlog (fst s) @
     (if has_cursor_hidden (snd s)
      then [XDefineCursor (xwindow (fst s))
              (if get_cursor_hidden (snd s) then hidden_cursor else no_cursor)]
      else [])"
  "xwindow (fst (cursor_hidden_now s)) = xwindow (fst s)"
  "p_origin (properties (fst (cursor_hidden_now s))) = p_origin (properties (fst s))"
  "p_size (properties (fst (cursor_hidden_now s))) = p_size (properties (fst s))"
  "p_z_order (properties (fst (cursor_hidden_now s))) = p_z_order (properties (fst s))"
  "p_foreground (snd (cursor_hidden_now s)) = p_foreground (snd s)"
  by (cases s; simp add: cursor_hidden_now_def set_cursor_hidden_def clear_cursor_hidden_def
        xlog_send)+

lemma foreground_now_fields [simp]:
  "awaiting_configure (fst (foreground_now s)) = awaiting_configure (fst s)"
  "xlog (fst (foreground_now s)) =
     xlog (fst s) @
     (if has_foreground (snd s)
      then [XSetInputFocus
              (if get_foreground (snd s) then focus_window (xwindow (fst s)) else PointerRoot)]
      else [])"
  "xwindow (fst (foreground_now s)) = xwindow (fst s)"
  "properties (fst (foreground_now s)) = properties (fst s)"
  by (cases s; simp add: foreground_now_def clear_foreground_def xlog_send)+

lemma clear_other:
  "has_size (clear_origin p) = has_size p"
  "has_z_order (clear_origin p) = has_z_order p"
  "has_z_order (clear_size p) = has_z_order p"
  "get_x_size (clear_origin p) = get_x_size p"
  "get_y_size (clear_origin p) = get_y_size p"
  "get_z_order (clear_origin p) = get_z_order p"
  "get_z_order (clear_size p) = get_z_order p"
  "p_cursor_hidden (clear_origin p) = p_cursor_hidden p"
  "p_cursor_hidden (clear_size p) = p_cursor_hidden p"
  "p_cursor_hidden (clear_z_order p) = p_cursor_hidden p"
  "p_foreground (clear_origin p) = p_foreground p"
  "p_foreground (clear_size p) = p_foreground p"
  "p_foreground (clear_z_order p) = p_foreground p"
  by (simp_all add: has_size_def has_z_order_def clear_origin_def clear_size_def
      clear_z_order_def get_x_size_def get_y_size_def get_z_order_def)

text \<open>
  \<^verbatim>\<open>reconfigure_now\<close> in closed form: the request with its mask and changes, the flag, and
  the z-order stored in the property model.
\<close>

lemma reconfigure_now_eq:
  "reconfigure_now (w, p) =
     (if has_origin p \<or> has_size p \<or> has_z_order p
      then ((send (if has_z_order p
                   then w\<lparr>properties := set_z_order (properties w) (get_z_order p)\<rparr> else w)
               (XReconfigureWMWindow (xwindow w)
                  ((if has_origin p then {CWX, CWY} else {}) \<union>
                   (if has_size p then {CWWidth, CWHeight} else {}) \<union>
                   (if has_z_order p then {CWStackMode} else {}))
                  \<lparr>changes_x = (if has_origin p then Some (get_x_origin p) else None),
                   changes_y = (if has_origin p then Some (get_y_origin p) else None),
                   changes_width = (if has_size p then Some (get_x_size p) else None),
                   changes_height = (if has_size p then Some (get_y_size p) else None),
                   changes_stack_mode =
                     (if has_z_order p
                      then Some (case get_z_order p of
                                   Z_bottom \<Rightarrow> Below | Z_normal \<Rightarrow> TopIf | Z_top \<Rightarrow> Above)
                      else None)\<rparr>))\<lparr>awaiting_configure := True\<rparr>,
            (if has_z_order p then clear_z_order else id)
              ((if has_size p then clear_size else id)
                 ((if has_origin p then clear_origin else id) p)))
      else (w, p))"
  by (cases "has_origin p"; cases "has_size p"; cases "has_z_order p")
     (simp_all add: reconfigure_now_def Let_def clear_other)

lemma reconfigure_now_awaiting:
  "awaiting_configure (fst (reconfigure_now s)) =
     (has_origin (snd s) \<or> has_size (snd s) \<or> has_z_order (snd s) \<or>
      awaiting_configure (fst s))"
  by (cases s) (simp add: reconfigure_now_eq)

lemma reconfigure_now_fields [simp]:
  "xwindow (fst (reconfigure_now s)) = xwindow (fst s)"
  "p_origin (properties (fst (reconfigure_now s))) = p_origin (properties (fst s))"
  "p_size (properties (fst (reconfigure_now s))) = p_size (properties (fst s))"
  "p_z_order (properties (fst (reconfigure_now s))) =
     override (p_z_order (properties (fst s))) (p_z_order (snd s))"
  "p_cursor_hidden (snd (reconfigure_now s)) = p_cursor_hidden (snd s)"
  "p_foreground (snd (reconfigure_now s)) = p_foreground (snd s)"
proof -
  obtain w p where s: "s = (w, p)"
    by (cases s)
  show "xwindow (fst (reconfigure_now s)) = xwindow (fst s)"
    by (simp add: s reconfigure_now_eq)
  show "p_origin (properties (fst (reconfigure_now s))) = p_origin (properties (fst s))"
    by (simp add: s reconfigure_now_eq set_z_order_def)
  show "p_size (properties (fst (reconfigure_now s))) = p_size (properties (fst s))"
    by (simp add: s reconfigure_now_eq set_z_order_def)
  show "p_z_order (properties (fst (reconfigure_now s))) =
     override (p_z_order (properties (fst s))) (p_z_order (snd s))"
    by (cases "p_z_order p")
       (simp_all add: s reconfigure_now_eq set_z_order_def has_z_order_def get_z_order_def
          override_def)
  show "p_cursor_hidden (snd (reconfigure_now s)) = p_cursor_hidden (snd s)"
    by (simp add: s reconfigure_now_eq clear_other)
  show "p_foreground (snd (reconfigure_now s)) = p_foreground (snd s)"
    by (simp add: s reconfigure_now_eq clear_other)
qed

lemma reconfigure_now_xlog:
  "xlog (fst (reconfigure_now s)) =
     xlog (fst s) @
     (if has_origin (snd s) \<or> has_size (snd s) \<or> has_z_order (snd s)
      then [XReconfigureWMWindow (xwindow (fst s))
              ((if has_origin (snd s) then {CWX, CWY} else {}) \<union>
               (if has_size (snd s) then {CWWidth, CWHeight} else {}) \<union>
               (if has_z_order (snd s) then {CWStackMode} else {}))
              \<lparr>changes_x = (if has_origin (snd s) then Some (get_x_origin (snd s)) else None),
               changes_y = (if has_origin (snd s) then Some (get_y_origin (snd s)) else None),
               changes_width = (if has_size (snd s) then Some (get_x_size (snd s)) else None),
               changes_height = (if has_size (snd s) then Some (get_y_size (snd s)) else None),
               changes_stack_mode =
                 (if has_z_order (snd s)
                  then Some (case get_z_order (snd s) of
                               Z_bottom \<Rightarrow> Below | Z_normal \<Rightarrow> TopIf | Z_top \<Rightarrow> Above)
                  else None)\<rparr>]
      else [])"
proof -
  obtain w p where s: "s = (w, p)"
    by (cases s)
  show ?thesis
    by (cases "has_z_order p") (simp_all add: s reconfigure_now_eq xlog_send)
qed
lemma set_properties_now_open:
  assumes "pipe w"
    and "GraphicsWindow_set_properties_now env w (fullscreen_request env p) = (w1, p1)"
    and "is_any_specified p1"
  shows "set_properties_now env w p =
     (set_wm_properties
        (fst (foreground_now (cursor_hidden_now (reconfigure_now
                (fullscreen_now (title_now (w1, p1)))))))
        (add_properties (properties w1) p1) True,
      snd (foreground_now (cursor_hidden_now (reconfigure_now
             (fullscreen_now (title_now (w1, p1)))))))"
  using assms by (simp add: set_properties_now_def Let_def split_beta)

lemma set_properties_now_nothing:
  assumes "pipe w"
    and "GraphicsWindow_set_properties_now env w (fullscreen_request env p) = (w1, p1)"
    and "\<not> is_any_specified p1"
  shows "set_properties_now env w p = (w1, p1)"
  using assms by (simp add: set_properties_now_def)

lemma geometry_specified:
  "has_origin p \<or> has_size p \<or> has_z_order p \<Longrightarrow> is_any_specified p"
  by (auto simp: has_origin_def has_size_def has_z_order_def is_any_specified_def)

lemma set_properties_now_awaiting:
  assumes "pipe w"
    and "GraphicsWindow_set_properties_now env w (fullscreen_request env p) = (w1, p1)"
  shows "awaiting_configure (fst (set_properties_now env w p)) =
     (has_origin p1 \<or> has_size p1 \<or> has_z_order p1 \<or> awaiting_configure w1)"
proof (cases "is_any_specified p1")
  case True
  show ?thesis
    by (simp add: set_properties_now_open [OF assms True] reconfigure_now_awaiting
        has_origin_def has_size_def has_z_order_def)
next
  case False
  then show ?thesis
    using geometry_specified [of p1] by (auto simp: set_properties_now_nothing [OF assms False])
qed


text \<open>What \<^verbatim>\<open>set_properties_now\<close> sends once the delta has something in it.\<close>

lemma set_properties_now_xlog:
  assumes "pipe w"
    and "GraphicsWindow_set_properties_now env w (fullscreen_request env p) = (w1, p1)"
    and "is_any_specified p1"
  shows "\<exists>rest. xlog (fst (set_properties_now env w p)) =
     xlog (fst (reconfigure_now (fullscreen_now (title_now (w1, p1))))) @ rest \<and>
     (\<forall>x m c. XReconfigureWMWindow x m c \<notin> set rest)"
proof -
  let ?s = "cursor_hidden_now (reconfigure_now (fullscreen_now (title_now (w1, p1))))"
  let ?t = "foreground_now ?s"
  let ?wm = "add_properties (properties w1) p1"
  let ?rest = "(if has_cursor_hidden (snd (reconfigure_now (fullscreen_now (title_now (w1, p1)))))
      then [XDefineCursor (xwindow (fst (reconfigure_now (fullscreen_now (title_now (w1, p1))))))
              (if get_cursor_hidden (snd (reconfigure_now (fullscreen_now (title_now (w1, p1)))))
               then hidden_cursor else no_cursor)]
      else []) @
     (if has_foreground (snd ?s)
      then [XSetInputFocus
              (if get_foreground (snd ?s) then focus_window (xwindow (fst ?s)) else PointerRoot)]
      else []) @
     [XChangeProperty (xwindow (fst ?t)) net_wm_window_type (type_data ?wm),
      XChangeProperty (xwindow (fst ?t)) net_wm_state (state_data ?wm)] @
     map (\<lambda>a. case a of SetAction state action \<Rightarrow>
            XSendEvent (xwindow (fst ?t)) net_wm_state action state) (set_data ?wm) @
     [XSetWMProperties (xwindow (fst ?t)) (if has_title ?wm then Some (get_title ?wm) else None)
        (size_hints ?wm)
        (if has_minimized ?wm \<and> get_minimized ?wm then IconicState else NormalState)
        (if get_undecorated ?wm then Some ''Undecorated'' else None),
      XSetWMProtocols (xwindow (fst ?t)) [wm_delete_window]]"
  have "xlog (fst (set_properties_now env w p)) =
     xlog (fst (reconfigure_now (fullscreen_now (title_now (w1, p1))))) @ ?rest"
    by (simp only: set_properties_now_open [OF assms] fst_conv set_wm_properties_xlog
        foreground_now_fields cursor_hidden_now_fields if_True append_assoc)
  moreover have "XReconfigureWMWindow x m c \<notin> set ?rest" for x m c
    by (auto split: SetAction.splits)
  ultimately show ?thesis
    by blast
qed

lemma close_window_awaiting:
  "awaiting_configure (close_window w) = awaiting_configure w"
  by (cases "gsg w"; cases "ic w"; cases "xwindow w = 0")
     (simp_all add: close_window_def GraphicsWindow_close_window_def Let_def)

lemma system_changed_properties_fields [simp]:
  "awaiting_configure (system_changed_properties w p) = awaiting_configure w"
  "xlog (system_changed_properties w p) = xlog w"
  "xwindow (system_changed_properties w p) = xwindow w"
  by (simp_all add: system_changed_properties_def)

lemma switch_event_awaiting:
  "awaiting_configure (fst (switch_event env w d)) =
     (case d of ConfigureNotify a b \<Rightarrow> False | _ \<Rightarrow> awaiting_configure w)"
  by (cases d) (simp_all add: switch_event_def Let_def close_window_awaiting)

lemma loop_body_awaiting:
  "awaiting_configure (fst (loop_body env w g event)) =
     (case ev_data event of ConfigureNotify a b \<Rightarrow> False | _ \<Rightarrow> awaiting_configure w)"
proof (cases g)
  case None
  then show ?thesis
    by (simp add: loop_body_def switch_event_awaiting)
next
  case (Some r)
  show ?thesis
  proof (cases "\<exists>e. ev_data event = KeyPress e \<and> keycode e = keycode r \<and>
      key_time e - key_time r \<le> 1")
    case True
    then obtain e where "ev_data event = KeyPress e" "keycode e = keycode r"
      "key_time e - key_time r \<le> 1"
      by blast
    then show ?thesis
      by (simp add: Some loop_body_repeat)
  next
    case False
    then have "loop_body env w (Some r) event =
        switch_event env (handle_keyrelease env w r) (ev_data event)"
      by (intro loop_body_genuine) blast
    then show ?thesis
      by (cases "ev_data event") (simp_all add: Some switch_event_awaiting)
  qed
qed

lemma XCheckIfEvent_set:
  "XCheckIfEvent xw q = Some (e, q') \<Longrightarrow> e \<in> set q \<and> set q' \<subseteq> set q"
proof (induction q arbitrary: e q')
  case Nil
  then show ?case by simp
next
  case (Cons a q)
  show ?case
  proof (cases "ev_window a = xw")
    case True
    with Cons.prems show ?thesis by auto
  next
    case False
    with Cons.prems obtain q1 where "XCheckIfEvent xw q = Some (e, q1)" "q' = a # q1"
      by (auto split: option.splits)
    with Cons.IH [of e q1] show ?thesis by auto
  qed
qed


lemma foldl_preserves:
  "(\<And>v i. f (g v i) = f v) \<Longrightarrow> f (foldl g w xs) = f w"
  by (induction xs arbitrary: w) simp_all



lemma env_ex_base:
  "GraphicsWindow_set_properties_now env_ex w p = (w, p)"
  "get_display_width env_ex = 1024" "get_display_height env_ex = 768"
  by (simp_all add: env_ex_def)

lemma delta_ex:
  "fullscreen_request env (set_size WindowProperties a b) = set_size WindowProperties a b"
  "fullscreen_request env (set_z_order WindowProperties z) = set_z_order WindowProperties z"
  "has_size (set_size WindowProperties a b)"
  "\<not> has_origin (set_size WindowProperties a b)"
  "\<not> has_z_order (set_size WindowProperties a b)"
  "has_z_order (set_z_order WindowProperties z)"
  "p_z_order (set_z_order WindowProperties z) = Some z"
  by (simp_all add: fullscreen_request_def set_size_def set_z_order_def WindowProperties_def
      get_fullscreen_def flag_def has_size_def has_origin_def has_z_order_def)

lemma loop_body_reassert:
  assumes "ev_data event = ConfigureNotify width height"
    and "get_fixed_size (properties v)"
    and "width \<noteq> get_x_size (properties v) \<or> height \<noteq> get_y_size (properties v)"
  shows "xlog (fst (loop_body env v g event)) =
     xlog v @ [XConfigureWindow (xwindow v) {CWWidth, CWHeight}
                \<lparr>changes_x = None, changes_y = None,
                 changes_width = Some (get_x_size (properties v)),
                 changes_height = Some (get_y_size (properties v)),
                 changes_stack_mode = None\<rparr>]"
  using assms(2,3) loop_body_ConfigureNotify [OF assms(1), of env v g]
  by (cases g) (auto simp: switch_event_def Let_def xlog_send)

text \<open>
  C4, as amended. A geometry request that \<^verbatim>\<open>set_properties_now\<close> sends (on a window whose
  pipe is non-null: \<^verbatim>\<open>XReconfigureWMWindow\<close>, for an origin, a size or a z-order left in the
  delta by the base-class step) comes with \<^verbatim>\<open>_awaiting_configure\<close> set. The size
  re-assertion of the \<^verbatim>\<open>ConfigureNotify\<close> branch for a fixed-size window is sent with the
  flag cleared, not latched. The event translator clears the flag on a \<^verbatim>\<open>ConfigureNotify\<close>
  and on no other event.
\<close>

theorem geometry_request_latch:
  assumes "pipe w"
    and "GraphicsWindow_set_properties_now env w (fullscreen_request env p) = (w1, p1)"
  shows
    "(\<forall>x m c. XReconfigureWMWindow x m c \<in> set (xlog (fst (set_properties_now env w p))) \<and>
              XReconfigureWMWindow x m c \<notin> set (xlog w1) \<longrightarrow>
              awaiting_configure (fst (set_properties_now env w p))) \<and>
     (has_origin p1 \<or> has_size p1 \<or> has_z_order p1 \<longrightarrow>
        (\<exists>m c. XReconfigureWMWindow (xwindow w1) m c
                  \<in> set (xlog (fst (set_properties_now env w p)))) \<and>
        awaiting_configure (fst (set_properties_now env w p))) \<and>
     (ev_data event = ConfigureNotify width height \<and> get_fixed_size (properties v) \<and>
      (width \<noteq> get_x_size (properties v) \<or> height \<noteq> get_y_size (properties v)) \<longrightarrow>
        xlog (fst (loop_body env v g event)) =
          xlog v @ [XConfigureWindow (xwindow v) {CWWidth, CWHeight}
                     \<lparr>changes_x = None, changes_y = None,
                      changes_width = Some (get_x_size (properties v)),
                      changes_height = Some (get_y_size (properties v)),
                      changes_stack_mode = None\<rparr>] \<and>
        \<not> awaiting_configure (fst (loop_body env v g event))) \<and>
     awaiting_configure (fst (loop_body env v g event)) =
       (case ev_data event of ConfigureNotify a b \<Rightarrow> False | _ \<Rightarrow> awaiting_configure v)"
proof -
  let ?R = "set_properties_now env w p"
  let ?s = "fullscreen_now (title_now (w1, p1))"
  let ?geom = "has_origin p1 \<or> has_size p1 \<or> has_z_order p1"
  have same: "has_origin (snd ?s) = has_origin p1" "has_size (snd ?s) = has_size p1"
    "has_z_order (snd ?s) = has_z_order p1" "xwindow (fst ?s) = xwindow w1"
    "xlog (fst ?s) = xlog w1"
    by (simp_all add: has_origin_def has_size_def has_z_order_def)
  have flag: "awaiting_configure (fst ?R) = (?geom \<or> awaiting_configure w1)"
    by (simp add: set_properties_now_awaiting [OF assms])
  have new: "awaiting_configure (fst ?R)"
    if inlog: "XReconfigureWMWindow x m c \<in> set (xlog (fst ?R))"
      and fresh: "XReconfigureWMWindow x m c \<notin> set (xlog w1)" for x m c
  proof (cases "is_any_specified p1")
    case False
    then show ?thesis
      using inlog fresh by (simp add: set_properties_now_nothing [OF assms False])
  next
    case True
    obtain rest where rest: "xlog (fst ?R) = xlog (fst (reconfigure_now ?s)) @ rest"
      "\<forall>x m c. XReconfigureWMWindow x m c \<notin> set rest"
      using set_properties_now_xlog [OF assms True] by blast
    have "XReconfigureWMWindow x m c \<in> set (xlog (fst (reconfigure_now ?s)))"
      using inlog rest by auto
    then have ?geom
      using fresh by (cases ?geom) (simp_all only: reconfigure_now_xlog same, simp_all)
    then show ?thesis
      by (simp add: flag)
  qed
  have sent: "\<exists>m c. XReconfigureWMWindow (xwindow w1) m c \<in> set (xlog (fst ?R))" if geom: ?geom
  proof -
    obtain rest where rest: "xlog (fst ?R) = xlog (fst (reconfigure_now ?s)) @ rest"
      using set_properties_now_xlog [OF assms geometry_specified [OF geom]] by blast
    obtain m c where "xlog (fst (reconfigure_now ?s)) =
        xlog w1 @ [XReconfigureWMWindow (xwindow w1) m c]"
      using geom by (simp only: reconfigure_now_xlog same) auto
    then have "XReconfigureWMWindow (xwindow w1) m c \<in> set (xlog (fst ?R))"
      using rest by simp
    then show ?thesis
      by blast
  qed
  have reassert: "xlog (fst (loop_body env v g event)) =
          xlog v @ [XConfigureWindow (xwindow v) {CWWidth, CWHeight}
                     \<lparr>changes_x = None, changes_y = None,
                      changes_width = Some (get_x_size (properties v)),
                      changes_height = Some (get_y_size (properties v)),
                      changes_stack_mode = None\<rparr>] \<and>
        \<not> awaiting_configure (fst (loop_body env v g event))"
    if "ev_data event = ConfigureNotify width height \<and> get_fixed_size (properties v) \<and>
      (width \<noteq> get_x_size (properties v) \<or> height \<noteq> get_y_size (properties v))"
    using that loop_body_reassert [of event width height v env g]
    by (simp add: loop_body_awaiting)
  show ?thesis
    using new sent reassert flag loop_body_awaiting [of env v g event]
    by blast
qed

theorem geometry_request_latch_witness:
  "XReconfigureWMWindow 7 {CWWidth, CWHeight}
     \<lparr>changes_x = None, changes_y = None, changes_width = Some 200, changes_height = Some 150,
      changes_stack_mode = None\<rparr>
     \<notin> set (xlog window_ex) \<and>
   awaiting_configure (fst (set_properties_now env_ex window_ex (set_size WindowProperties 200 150))) \<and>
   xlog (fst (loop_body env_ex fixed_ex None (event_ex (ConfigureNotify 200 150)))) =
     [XConfigureWindow 7 {CWWidth, CWHeight}
        \<lparr>changes_x = None, changes_y = None, changes_width = Some 100,
         changes_height = Some 100, changes_stack_mode = None\<rparr>] \<and>
   awaiting_configure (fst (loop_body env_ex (window_ex\<lparr>awaiting_configure := True\<rparr>) None
      (event_ex FocusIn)))"
proof -
  have w: "pipe window_ex" "xlog window_ex = []"
    by (simp_all add: window_ex_def set_open_def)
  have fixed: "get_fixed_size (properties fixed_ex)"
    "get_x_size (properties fixed_ex) = 100" "get_y_size (properties fixed_ex) = 100"
    "xlog fixed_ex = []" "xwindow fixed_ex = 7"
    by (simp_all add: fixed_ex_def window_ex_def set_open_def get_fixed_size_def flag_def get_x_size_def
        get_y_size_def set_size_def set_foreground_def WindowProperties_def)
  show ?thesis
    using geometry_request_latch [OF w(1) env_ex_base(1),
        where p = "set_size WindowProperties 200 150" and v = fixed_ex and g = None
        and event = "event_ex (ConfigureNotify 200 150)" and width = 200 and height = 150]
      geometry_request_latch [OF w(1) env_ex_base(1),
        where p = "set_size WindowProperties 200 150"
        and v = "window_ex\<lparr>awaiting_configure := True\<rparr>" and g = None
        and event = "event_ex FocusIn"]
    by (simp add: delta_ex w fixed event_ex_def)
qed

text \<open>
  The claim as stated fails for the re-assertion: a fixed-size 100 by 100 window that is
  told of a 200 by 150 configuration sends the corrective resize, and the flag is false
  after the event.
\<close>

theorem geometry_request_latch_counterexample:
  "xlog (fst (loop_body env_ex fixed_ex None (event_ex (ConfigureNotify 200 150)))) =
     [XConfigureWindow 7 {CWWidth, CWHeight}
        \<lparr>changes_x = None, changes_y = None, changes_width = Some 100,
         changes_height = Some 100, changes_stack_mode = None\<rparr>] \<and>
   \<not> awaiting_configure (fst (loop_body env_ex fixed_ex None (event_ex (ConfigureNotify 200 150))))"
proof -
  have ev: "ev_data (event_ex (ConfigureNotify 200 150)) = ConfigureNotify 200 150"
    by (simp add: event_ex_def)
  have fixed: "get_fixed_size (properties fixed_ex)"
    "get_x_size (properties fixed_ex) = 100" "get_y_size (properties fixed_ex) = 100"
    "xlog fixed_ex = []" "xwindow fixed_ex = 7"
    by (simp_all add: fixed_ex_def window_ex_def set_open_def get_fixed_size_def flag_def get_x_size_def
        get_y_size_def set_size_def set_foreground_def WindowProperties_def)
  show ?thesis
    using loop_body_reassert [OF ev, of fixed_ex env_ex None]
    by (simp add: fixed loop_body_awaiting ev)
qed

subsection \<open>A pass over the queue\<close>

lemma poll_raw_mouse_fields [simp]:
  "properties (poll_raw_mouse env w i) = properties w"
  "xlog (poll_raw_mouse env w i) = xlog w"
  "xwindow (poll_raw_mouse env w i) = xwindow w"
  by (simp_all add: poll_raw_mouse_def Let_def split_beta)

lemma poll_raw_mice_fields [simp]:
  "properties (poll_raw_mice env w) = properties w"
  "xlog (poll_raw_mice env w) = xlog w"
  "xwindow (poll_raw_mice env w) = xwindow w"
  unfolding poll_raw_mice_def
  by (rule foldl_preserves, simp)+

lemma close_window_properties:
  "properties (close_window w) = properties w"
  by (cases "gsg w"; cases "ic w"; cases "xwindow w = 0")
     (simp_all add: close_window_def GraphicsWindow_close_window_def Let_def)

text \<open>
  The loop body is the repeated press handled on its own, or the \<^verbatim>\<open>switch\<close> after the
  buffered release, if any, has been handled.
\<close>

lemma loop_body_cases:
  assumes "\<And>e r. g = Some r \<Longrightarrow> ev_data event = KeyPress e \<Longrightarrow> keycode e = keycode r \<Longrightarrow>
      key_time e - key_time r \<le> 1 \<Longrightarrow> P (handle_keypress env (handle_keystroke env w e) e, None)"
    and "\<And>r. g = Some r \<Longrightarrow> P (switch_event env (handle_keyrelease env w r) (ev_data event))"
    and "g = None \<Longrightarrow> P (switch_event env w (ev_data event))"
  shows "P (loop_body env w g event)"
proof (cases g)
  case None
  then show ?thesis
    using assms(3) by (simp add: loop_body_def)
next
  case (Some r)
  show ?thesis
  proof (cases "\<exists>e. ev_data event = KeyPress e \<and> keycode e = keycode r \<and>
      key_time e - key_time r \<le> 1")
    case True
    then obtain e where e: "ev_data event = KeyPress e" "keycode e = keycode r"
      "key_time e - key_time r \<le> 1"
      by blast
    show ?thesis
      using assms(1) [OF Some e] by (simp add: Some loop_body_repeat [OF e])
  next
    case False
    then have "loop_body env w (Some r) event =
        switch_event env (handle_keyrelease env w r) (ev_data event)"
      by (intro loop_body_genuine) blast
    then show ?thesis
      using assms(2) [OF Some] by (simp add: Some)
  qed
qed

text \<open>
  What every event the filter lets through and the final flush preserve, the whole loop
  preserves.
\<close>

lemma drain_invariant:
  assumes "\<And>v g event. event \<in> set q \<Longrightarrow> \<not> ev_filtered event \<Longrightarrow> P v \<Longrightarrow>
      P (fst (loop_body env v g event))"
    and "\<And>v r. P v \<Longrightarrow> P (handle_keyrelease env v r)"
    and "P w"
  shows "P (fst (drain env w g q))"
  using assms
proof (induction env w g q rule: drain.induct)
  case (1 env w g q)
  show ?case
  proof (cases "XCheckIfEvent (xwindow w) q")
    case None
    then show ?thesis
      using "1.prems"(2,3) by (cases g) (simp_all add: drain_end)
  next
    case (Some x)
    obtain event q' where x: "x = (event, q')"
      by (cases x)
    have next_event: "XCheckIfEvent (xwindow w) q = Some (event, q')"
      by (simp add: Some x)
    have mem: "event \<in> set q" "set q' \<subseteq> set q"
      using XCheckIfEvent_set [OF next_event] by simp_all
    have step: "e \<in> set q' \<Longrightarrow> \<not> ev_filtered e \<Longrightarrow> P v \<Longrightarrow> P (fst (loop_body env v h e))"
      for v h e
      using "1.prems"(1) mem(2) by blast
    show ?thesis
    proof (cases "ev_filtered event")
      case True
      then show ?thesis
        using "1.IH"(1) [OF Some x [symmetric] True step "1.prems"(2,3)]
        by (simp add: drain_step [OF next_event])
    next
      case False
      obtain w' g' where body: "loop_body env w g event = (w', g')"
        by (cases "loop_body env w g event")
      have "P w'"
        using "1.prems"(1) [OF mem(1) False "1.prems"(3), of g] by (simp add: body)
      then show ?thesis
        using "1.IH"(2) [OF Some x [symmetric] False body [symmetric] step "1.prems"(2)]
        by (simp add: drain_step [OF next_event] False body)
    qed
  qed
qed

lemma switch_event_xlog:
  "\<exists>rest. xlog (fst (switch_event env w d)) = xlog w @ rest"
  by (cases d; cases "gsg w"; cases "ic w"; cases "xwindow w = 0")
     (simp_all add: switch_event_def Let_def xlog_send close_window_def
       GraphicsWindow_close_window_def)

lemma switch_event_size:
  "p_size (properties (fst (switch_event env w d))) =
     (case d of
        ConfigureNotify a b \<Rightarrow>
          if get_fixed_size (properties w) then p_size (properties w) else Some (a, b)
      | _ \<Rightarrow> p_size (properties w))"
  "p_fixed_size (properties (fst (switch_event env w d))) = p_fixed_size (properties w)"
  by (cases d;
      simp add: switch_event_def Let_def close_window_properties system_changed_properties_def
        add_properties_def override_def set_size_def set_foreground_def set_minimized_def
        set_open_def WindowProperties_def)+

lemma process_events_open:
  "xwindow (GraphicsWindow_process_events env w) \<noteq> 0 \<Longrightarrow>
   process_events env w q =
     drain env (poll_raw_mice env (GraphicsWindow_process_events env w)) None q"
  by (simp add: process_events_def Let_def)

lemma process_events_first:
  assumes "GraphicsWindow_process_events env w = w1" and "xwindow w1 \<noteq> 0"
    and "XCheckIfEvent (xwindow w1) q = Some (event, q')" and "\<not> ev_filtered event"
  shows "process_events env w q =
     drain env (fst (loop_body env (poll_raw_mice env w1) None event))
       (snd (loop_body env (poll_raw_mice env w1) None event)) q'"
proof -
  have "XCheckIfEvent (xwindow (poll_raw_mice env w1)) q = Some (event, q')"
    using assms(3) by simp
  then show ?thesis
    using assms(1,2,4) by (simp add: process_events_def Let_def drain_step)
qed

lemma loop_body_xlog:
  "\<exists>rest. xlog (fst (loop_body env w g event)) = xlog w @ rest"
proof (rule loop_body_cases)
  show "\<exists>rest. xlog (fst (handle_keypress env (handle_keystroke env w e) e, None)) =
      xlog w @ rest" for e
    by simp
  show "\<exists>rest. xlog (fst (switch_event env (handle_keyrelease env w r) (ev_data event))) =
      xlog w @ rest" for r
    using switch_event_xlog [of env "handle_keyrelease env w r" "ev_data event"] by simp
  show "\<exists>rest. xlog (fst (switch_event env w (ev_data event))) = xlog w @ rest"
    by (rule switch_event_xlog)
qed

lemma drain_xlog:
  "\<exists>rest. xlog (fst (drain env w g q)) = xlog w @ rest"
proof (rule drain_invariant [where P = "\<lambda>v. \<exists>rest. xlog v = xlog w @ rest"])
  show "\<exists>rest. xlog (fst (loop_body env v h event)) = xlog w @ rest"
    if "\<exists>rest. xlog v = xlog w @ rest" for v h event
    using that loop_body_xlog [of env v h event] by auto
  show "\<exists>rest. xlog (handle_keyrelease env v r) = xlog w @ rest"
    if "\<exists>rest. xlog v = xlog w @ rest" for v r
    using that by simp
  show "\<exists>rest. xlog w = xlog w @ rest"
    by simp
qed

lemma loop_body_size:
  "p_size (properties (fst (loop_body env w g event))) =
     (case ev_data event of
        ConfigureNotify a b \<Rightarrow>
          if get_fixed_size (properties w) then p_size (properties w) else Some (a, b)
      | _ \<Rightarrow> p_size (properties w))"
proof (rule loop_body_cases)
  show "p_size (properties (fst (handle_keypress env (handle_keystroke env w e) e, None))) =
     (case ev_data event of
        ConfigureNotify a b \<Rightarrow>
          if get_fixed_size (properties w) then p_size (properties w) else Some (a, b)
      | _ \<Rightarrow> p_size (properties w))"
    if "ev_data event = KeyPress e" for e
    using that by simp
  show "p_size (properties (fst (switch_event env (handle_keyrelease env w r) (ev_data event)))) =
     (case ev_data event of
        ConfigureNotify a b \<Rightarrow>
          if get_fixed_size (properties w) then p_size (properties w) else Some (a, b)
      | _ \<Rightarrow> p_size (properties w))" for r
    by (cases "ev_data event") (simp_all add: switch_event_size)
  show "p_size (properties (fst (switch_event env w (ev_data event)))) =
     (case ev_data event of
        ConfigureNotify a b \<Rightarrow>
          if get_fixed_size (properties w) then p_size (properties w) else Some (a, b)
      | _ \<Rightarrow> p_size (properties w))"
    by (simp add: switch_event_size)
qed

lemma loop_body_fixed_size:
  "p_fixed_size (properties (fst (loop_body env w g event))) = p_fixed_size (properties w)"
proof (rule loop_body_cases)
  show "p_fixed_size (properties (fst (handle_keypress env (handle_keystroke env w e) e, None))) =
     p_fixed_size (properties w)" for e
    by simp
  show "p_fixed_size (properties (fst (switch_event env (handle_keyrelease env w r)
     (ev_data event)))) = p_fixed_size (properties w)" for r
    by (simp add: switch_event_size)
  show "p_fixed_size (properties (fst (switch_event env w (ev_data event)))) =
     p_fixed_size (properties w)"
    by (simp add: switch_event_size)
qed

text \<open>A fixed-size window keeps the size of its property model through the whole loop.\<close>

lemma drain_fixed_size:
  assumes "get_fixed_size (properties w)"
  shows "p_size (properties (fst (drain env w g q))) = p_size (properties w)"
proof -
  have "p_size (properties (fst (drain env w g q))) = p_size (properties w) \<and>
      p_fixed_size (properties (fst (drain env w g q))) = p_fixed_size (properties w)"
  proof (rule drain_invariant [where P = "\<lambda>v. p_size (properties v) = p_size (properties w) \<and>
      p_fixed_size (properties v) = p_fixed_size (properties w)"])
    show "p_size (properties (fst (loop_body env v h event))) = p_size (properties w) \<and>
        p_fixed_size (properties (fst (loop_body env v h event))) = p_fixed_size (properties w)"
      if "p_size (properties v) = p_size (properties w) \<and>
        p_fixed_size (properties v) = p_fixed_size (properties w)" for v h event
      using that assms
      by (cases "ev_data event")
         (simp_all add: loop_body_size loop_body_fixed_size get_fixed_size_def)
    show "p_size (properties (handle_keyrelease env v r)) = p_size (properties w) \<and>
        p_fixed_size (properties (handle_keyrelease env v r)) = p_fixed_size (properties w)"
      if "p_size (properties v) = p_size (properties w) \<and>
        p_fixed_size (properties v) = p_fixed_size (properties w)" for v r
      using that by simp
    show "p_size (properties w) = p_size (properties w) \<and>
        p_fixed_size (properties w) = p_fixed_size (properties w)"
      by simp
  qed
  then show ?thesis
    by simp
qed

text \<open>Only a \<^verbatim>\<open>ConfigureNotify\<close> changes the size of the property model.\<close>

lemma drain_size:
  assumes "\<forall>e\<in>set q. \<forall>a b. ev_data e \<noteq> ConfigureNotify a b"
  shows "p_size (properties (fst (drain env w g q))) = p_size (properties w)"
proof (rule drain_invariant [where P = "\<lambda>v. p_size (properties v) = p_size (properties w)"])
  show "p_size (properties (fst (loop_body env v h event))) = p_size (properties w)"
    if "event \<in> set q" and "p_size (properties v) = p_size (properties w)" for v h event
    using that assms by (cases "ev_data event") (auto simp: loop_body_size)
  show "p_size (properties (handle_keyrelease env v r)) = p_size (properties w)"
    if "p_size (properties v) = p_size (properties w)" for v r
    using that by simp
  show "p_size (properties w) = p_size (properties w)"
    by simp
qed




text \<open>The example window under the example collaborators.\<close>

lemma poll_raw_mice_ex:
  "poll_raw_mice env_ex window_ex = window_ex"
  "poll_raw_mice env_ex fixed_ex = fixed_ex"
  by (simp_all add: poll_raw_mice_def poll_raw_mouse_def fixed_ex_def window_ex_def env_ex_def
      read_all_def Let_def)

lemma process_events_ex:
  "GraphicsWindow_process_events env_ex w = w"
  "process_events env_ex window_ex q = drain env_ex window_ex None q"
  "process_events env_ex fixed_ex q = drain env_ex fixed_ex None q"
proof -
  show base: "GraphicsWindow_process_events env_ex w = w" for w
    by (simp add: env_ex_def)
  have "xwindow window_ex \<noteq> 0" "xwindow fixed_ex \<noteq> 0"
    by (simp_all add: fixed_ex_def window_ex_def)
  then show "process_events env_ex window_ex q = drain env_ex window_ex None q"
    "process_events env_ex fixed_ex q = drain env_ex fixed_ex None q"
    by (simp_all add: process_events_open base poll_raw_mice_ex)
qed

lemma XCheckIfEvent_ex:
  "XCheckIfEvent 7 (event_ex d # q) = Some (event_ex d, q)"
  "\<not> ev_filtered (event_ex d)" "ev_data (event_ex d) = d" "ev_window (event_ex d) = 7"
  by (simp_all add: event_ex_def)

subsection \<open>What opening and the frame methods leave alone\<close>


lemma open_window_defaults_awaiting [simp]:
  "awaiting_configure (open_window_defaults w) = awaiting_configure w"
  by (simp add: open_window_defaults_def Let_def)

lemma setup_colormap_fbconfig_awaiting [simp]:
  "awaiting_configure (setup_colormap_fbconfig renv w c) = awaiting_configure w"
proof (cases "glXGetVisualFromFBConfig renv c")
  case None
  then show ?thesis
    by (simp add: setup_colormap_fbconfig_def)
next
  case (Some visual_info)
  then show ?thesis
    by (cases "vi_class visual_info") (simp_all add: setup_colormap_fbconfig_def)
qed

lemma setup_colormap_visual_awaiting [simp]:
  "awaiting_configure (setup_colormap_visual renv w visual) = awaiting_configure w"
  by (cases "vi_class visual") (simp_all add: setup_colormap_visual_def)

lemma open_window_colormap_awaiting [simp]:
  "awaiting_configure (open_window_colormap renv w g visual) = awaiting_configure w"
  by (cases "gsg_fbconfig renv g") (simp_all add: open_window_colormap_def)

lemma open_window_create_awaiting [simp]:
  "awaiting_configure (open_window_create renv w visual) = awaiting_configure w"
  by (simp add: open_window_create_def Let_def)

lemma open_window_ic_awaiting [simp]:
  "awaiting_configure (open_window_ic renv w) = awaiting_configure w"
  by (cases "get_im renv") (simp_all add: open_window_ic_def)

lemma open_window_cursor_awaiting [simp]:
  "awaiting_configure (open_window_cursor w) = awaiting_configure w"
  by (simp add: open_window_cursor_def)

lemma scan_raw_mice_awaiting:
  "awaiting_configure (scan_raw_mice renv ns w) = awaiting_configure w"
proof (induction ns arbitrary: w)
  case Nil
  show ?case by simp
next
  case (Cons i rest)
  show ?case
  proof (cases "device_nodes renv i")
    case no_such_node
    then show ?thesis by simp
  next
    case open_failed
    then show ?thesis by (simp add: Cons.IH)
  next
    case (opened dfd answer)
    show ?thesis
    proof (cases answer)
      case None
      then show ?thesis by (simp add: opened Cons.IH)
    next
      case (Some a)
      obtain name uniq pointer where "a = (name, uniq, pointer)"
        by (cases a)
      then show ?thesis
        by (simp add: opened Some Cons.IH Let_def)
    qed
  qed
qed

lemma open_raw_mice_awaiting [simp]:
  "awaiting_configure (open_raw_mice renv w) = awaiting_configure w"
  by (simp add: open_raw_mice_def scan_raw_mice_awaiting)





subsection \<open>Fixed-size enforcement\<close>

lemma loop_body_configure:
  assumes "ev_data event = ConfigureNotify width height"
  shows "snd (loop_body env v g event) = None"
    and "xlog (fst (loop_body env v g event)) =
      xlog v @
      (if get_fixed_size (properties v) \<and>
          (width \<noteq> get_x_size (properties v) \<or> height \<noteq> get_y_size (properties v))
       then [XConfigureWindow (xwindow v) {CWWidth, CWHeight}
               \<lparr>changes_x = None, changes_y = None,
                changes_width = Some (get_x_size (properties v)),
                changes_height = Some (get_y_size (properties v)),
                changes_stack_mode = None\<rparr>]
       else [])"
    and "properties (fst (loop_body env v g event)) =
      (if get_fixed_size (properties v) then properties v
       else (properties v)\<lparr>p_size := Some (width, height)\<rparr>)"
  using assms
  by (cases g;
      simp add: loop_body_def switch_event_def Let_def send_def system_changed_properties_def
        add_properties_def override_def set_size_def WindowProperties_def)+

text \<open>
  C5. \<^verbatim>\<open>process_events\<close> on a window whose native handle is not null, when the first event
  of the window that the input-method filter lets through is a \<^verbatim>\<open>ConfigureNotify\<close>: the
  event goes through the loop body and the pass goes on with the rest of the queue. If the
  window, as the base-class step left it, is fixed-size and the reported size differs from
  the size of its property model, the loop body sends a resize request for the model's
  size and leaves the property model as it was; the request is in what the pass has sent
  when it returns, and the size of the model after the whole pass is still the one before
  it, whatever else is in the queue. If the window is not fixed-size nothing is sent for
  the event and the reported size becomes the model's size; it still is when the pass
  returns, if no further \<^verbatim>\<open>ConfigureNotify\<close> is queued. Polling the raw mice in between
  touches neither the property model nor the requests. The loop body does the same for a
  \<^verbatim>\<open>ConfigureNotify\<close> at any later point of the pass, whether or not a key release is
  buffered.
\<close>

theorem fixed_size_enforcement:
  assumes "GraphicsWindow_process_events env w = w1" and "xwindow w1 \<noteq> 0"
    and "XCheckIfEvent (xwindow w1) q = Some (event, q')" and "\<not> ev_filtered event"
    and "ev_data event = ConfigureNotify width height"
  shows
    "process_events env w q =
       drain env (fst (loop_body env (poll_raw_mice env w1) None event)) None q' \<and>
     xlog (fst (loop_body env (poll_raw_mice env w1) None event)) =
       xlog w1 @
       (if get_fixed_size (properties w1) \<and>
           (width \<noteq> get_x_size (properties w1) \<or> height \<noteq> get_y_size (properties w1))
        then [XConfigureWindow (xwindow w1) {CWWidth, CWHeight}
                \<lparr>changes_x = None, changes_y = None,
                 changes_width = Some (get_x_size (properties w1)),
                 changes_height = Some (get_y_size (properties w1)),
                 changes_stack_mode = None\<rparr>]
        else []) \<and>
     properties (fst (loop_body env (poll_raw_mice env w1) None event)) =
       (if get_fixed_size (properties w1) then properties w1
        else (properties w1)\<lparr>p_size := Some (width, height)\<rparr>) \<and>
     (\<exists>rest. xlog (fst (process_events env w q)) =
        xlog w1 @
        (if get_fixed_size (properties w1) \<and>
            (width \<noteq> get_x_size (properties w1) \<or> height \<noteq> get_y_size (properties w1))
         then [XConfigureWindow (xwindow w1) {CWWidth, CWHeight}
                 \<lparr>changes_x = None, changes_y = None,
                  changes_width = Some (get_x_size (properties w1)),
                  changes_height = Some (get_y_size (properties w1)),
                  changes_stack_mode = None\<rparr>]
         else []) @ rest) \<and>
     (get_fixed_size (properties w1) \<longrightarrow>
        p_size (properties (fst (process_events env w q))) = p_size (properties w1)) \<and>
     (\<not> get_fixed_size (properties w1) \<and>
      (\<forall>e\<in>set q'. \<forall>a b. ev_data e \<noteq> ConfigureNotify a b) \<longrightarrow>
        p_size (properties (fst (process_events env w q))) = Some (width, height)) \<and>
     xlog (fst (loop_body env v g event)) =
       xlog v @
       (if get_fixed_size (properties v) \<and>
           (width \<noteq> get_x_size (properties v) \<or> height \<noteq> get_y_size (properties v))
        then [XConfigureWindow (xwindow v) {CWWidth, CWHeight}
                \<lparr>changes_x = None, changes_y = None,
                 changes_width = Some (get_x_size (properties v)),
                 changes_height = Some (get_y_size (properties v)),
                 changes_stack_mode = None\<rparr>]
        else []) \<and>
     properties (fst (loop_body env v g event)) =
       (if get_fixed_size (properties v) then properties v
        else (properties v)\<lparr>p_size := Some (width, height)\<rparr>) \<and>
     (XCheckIfEvent (xwindow v) r = Some (event, r') \<longrightarrow>
        drain env v g r = drain env (fst (loop_body env v g event)) None r')"
proof -
  let ?w0 = "poll_raw_mice env w1"
  let ?w' = "fst (loop_body env ?w0 None event)"
  let ?sent = "if get_fixed_size (properties w1) \<and>
           (width \<noteq> get_x_size (properties w1) \<or> height \<noteq> get_y_size (properties w1))
        then [XConfigureWindow (xwindow w1) {CWWidth, CWHeight}
                \<lparr>changes_x = None, changes_y = None,
                 changes_width = Some (get_x_size (properties w1)),
                 changes_height = Some (get_y_size (properties w1)),
                 changes_stack_mode = None\<rparr>]
        else []"
  have pass: "process_events env w q = drain env ?w' None q'"
    using process_events_first [OF assms(1-4)] by (simp add: loop_body_configure(1) [OF assms(5)])
  have log: "xlog ?w' = xlog w1 @ ?sent"
    by (simp add: loop_body_configure(2) [OF assms(5)])
  have model: "properties ?w' =
      (if get_fixed_size (properties w1) then properties w1
       else (properties w1)\<lparr>p_size := Some (width, height)\<rparr>)"
    by (simp add: loop_body_configure(3) [OF assms(5)])
  have sent: "\<exists>rest. xlog (fst (process_events env w q)) = xlog w1 @ ?sent @ rest"
    using drain_xlog [of env ?w' None q'] by (simp only: pass log append_assoc)
  have fixed: "p_size (properties (fst (process_events env w q))) = p_size (properties w1)"
    if "get_fixed_size (properties w1)"
    using that drain_fixed_size [of ?w' env None q'] by (simp add: pass model)
  have free: "p_size (properties (fst (process_events env w q))) = Some (width, height)"
    if "\<not> get_fixed_size (properties w1) \<and> (\<forall>e\<in>set q'. \<forall>a b. ev_data e \<noteq> ConfigureNotify a b)"
    using that drain_size [of q' env ?w' None] by (simp add: pass model)
  have step: "drain env v g r = drain env (fst (loop_body env v g event)) None r'"
    if "XCheckIfEvent (xwindow v) r = Some (event, r')"
    using assms(4) by (simp add: drain_step [OF that] loop_body_configure(1) [OF assms(5)])
  show ?thesis
    using pass log model sent fixed free step loop_body_configure(2,3) [OF assms(5), of env v g]
    by blast
qed

theorem fixed_size_enforcement_witness:
  "xlog (fst (process_events env_ex fixed_ex [event_ex (ConfigureNotify 200 150)])) =
     [XConfigureWindow 7 {CWWidth, CWHeight}
        \<lparr>changes_x = None, changes_y = None, changes_width = Some 100,
         changes_height = Some 100, changes_stack_mode = None\<rparr>] \<and>
   p_size (properties (fst (process_events env_ex fixed_ex
      [event_ex (ConfigureNotify 200 150), event_ex FocusOut]))) = Some (100, 100) \<and>
   xlog (fst (process_events env_ex window_ex [event_ex (ConfigureNotify 200 150)])) = [] \<and>
   p_size (properties (fst (process_events env_ex window_ex
      [event_ex (ConfigureNotify 200 150), event_ex FocusOut]))) = Some (200, 150)"
proof -
  let ?ev = "event_ex (ConfigureNotify 200 150)"
  have fixed: "get_fixed_size (properties fixed_ex)" "\<not> get_fixed_size (properties window_ex)"
    "get_x_size (properties fixed_ex) = 100" "get_y_size (properties fixed_ex) = 100"
    "xlog fixed_ex = []" "xwindow fixed_ex = 7" "xlog window_ex = []" "xwindow window_ex = 7"
    "p_size (properties fixed_ex) = Some (100, 100)"
    by (simp_all add: fixed_ex_def window_ex_def set_open_def get_fixed_size_def flag_def
        get_x_size_def get_y_size_def set_size_def set_foreground_def WindowProperties_def)
  have first: "XCheckIfEvent (xwindow fixed_ex) (?ev # rest) = Some (?ev, rest)"
    "XCheckIfEvent (xwindow window_ex) (?ev # rest) = Some (?ev, rest)" for rest
    by (simp_all only: fixed(6,8) XCheckIfEvent_ex(1))
  have rest: "\<forall>e\<in>set [event_ex FocusOut]. \<forall>a b. ev_data e \<noteq> ConfigureNotify a b"
    by (simp add: XCheckIfEvent_ex)
  have handle: "xwindow fixed_ex \<noteq> 0" "xwindow window_ex \<noteq> 0"
    by (simp_all add: fixed)
  have closed: "XCheckIfEvent (xwindow v) [] = None" for v :: window
    by simp
  note fixed_alone = fixed_size_enforcement [OF process_events_ex(1) handle(1) first(1) [of "[]"]
      XCheckIfEvent_ex(2,3), where v = fixed_ex and g = None and r = "[]" and r' = "[]"]
  note fixed_more = fixed_size_enforcement [OF process_events_ex(1) handle(1)
      first(1) [of "[event_ex FocusOut]"] XCheckIfEvent_ex(2,3),
      where v = fixed_ex and g = None and r = "[]" and r' = "[]"]
  note free_alone = fixed_size_enforcement [OF process_events_ex(1) handle(2) first(2) [of "[]"]
      XCheckIfEvent_ex(2,3), where v = window_ex and g = None and r = "[]" and r' = "[]"]
  note free_more = fixed_size_enforcement [OF process_events_ex(1) handle(2)
      first(2) [of "[event_ex FocusOut]"] XCheckIfEvent_ex(2,3),
      where v = window_ex and g = None and r = "[]" and r' = "[]"]
  have "xlog (fst (process_events env_ex fixed_ex [?ev])) =
     [XConfigureWindow 7 {CWWidth, CWHeight}
        \<lparr>changes_x = None, changes_y = None, changes_width = Some 100,
         changes_height = Some 100, changes_stack_mode = None\<rparr>]"
    using fixed_alone by (elim conjE) (simp add: fixed poll_raw_mice_ex drain_end [OF closed])
  moreover have "p_size (properties (fst (process_events env_ex fixed_ex
      [?ev, event_ex FocusOut]))) = Some (100, 100)"
    using fixed_more by (elim conjE) (simp add: fixed)
  moreover have "xlog (fst (process_events env_ex window_ex [?ev])) = []"
    using free_alone by (elim conjE) (simp add: fixed poll_raw_mice_ex drain_end [OF closed])
  moreover have "p_size (properties (fst (process_events env_ex window_ex
      [?ev, event_ex FocusOut]))) = Some (200, 150)"
    using free_more rest by (elim conjE) (simp add: fixed)
  ultimately show ?thesis
    by simp
qed

subsection \<open>Key repeat in a pass\<close>

lemma loop_body_KeyRelease:
  "ev_data event = KeyRelease r \<Longrightarrow> loop_body env w None event = (w, Some r)"
  "ev_data event = KeyRelease r \<Longrightarrow>
   loop_body env w (Some r') event = (handle_keyrelease env w r', Some r)"
  by (simp_all add: loop_body_def switch_event_def)

text \<open>
  C1, as amended. A key release that arrives is held back: the loop body emits nothing
  for it and changes nothing in the window, it only buffers the release (after handling
  as genuine a release that was already buffered), and the pass goes on with the release
  buffered; \<^verbatim>\<open>process_events\<close> on a window whose native handle is not null is that pass,
  started with nothing buffered on the window as the base-class step and the raw mice left
  it. With the release of key code \<open>K\<close> at time \<open>T\<close> buffered, let the next event of the
  window be the next one the input-method filter lets through (an event the filter takes
  leaves the release buffered). If it is a press of the same key code at time \<open>T\<close> or
  \<open>T + 1\<close> (the unsigned difference of the times is at most 1), the press is handled once,
  emitting the keystrokes the text lookup yields (the input context's characters or,
  without one, the button's ASCII equivalent if it has one) and a button-down if the key
  maps to a button, and nothing is emitted for the release. If it is any other event, the
  release is handled as genuine first (a button-up if its key maps to a button), then the
  event goes through the \<^verbatim>\<open>switch\<close>. If the pass ends, the release is handled as genuine
  there.
\<close>

theorem key_repeat:
  assumes "input_devices w \<noteq> []"
  shows
    "(ev_data event = KeyRelease r \<longrightarrow>
        loop_body env w None event = (w, Some r) \<and>
        loop_body env w (Some r') event = (handle_keyrelease env w r', Some r)) \<and>
     (XCheckIfEvent (xwindow w) q = Some (event, q') \<and> \<not> ev_filtered event \<and>
      ev_data event = KeyRelease r \<longrightarrow>
        drain env w None q = drain env w (Some r) q') \<and>
     (GraphicsWindow_process_events env v = v' \<and> xwindow v' \<noteq> 0 \<and>
      poll_raw_mice env v' = w \<longrightarrow>
        process_events env v q = drain env w None q) \<and>
     (XCheckIfEvent (xwindow w) q' = Some (follow, q'') \<and> \<not> ev_filtered follow \<and>
      ev_data follow = KeyPress e \<and> keycode e = keycode r \<and>
      (key_time e = key_time r \<or> key_time e = key_time r + 1) \<longrightarrow>
        drain env w (Some r) q' =
          drain env (handle_keypress env (handle_keystroke env w e) e) None q'' \<and>
        button_events (input_devices (handle_keypress env (handle_keystroke env w e) e) ! 0) =
          button_events (input_devices w ! 0) @
          (if ic w \<noteq> None then map Keystroke (XwcLookupString env e)
           else if has_ascii_equivalent env (get_button env e)
                then [Keystroke (get_ascii_equivalent env (get_button env e))] else []) @
          (if get_button env e \<noteq> none then [ButtonDown (get_button env e)] else [])) \<and>
     (XCheckIfEvent (xwindow w) q' = Some (follow, q'') \<and> \<not> ev_filtered follow \<and>
      (\<forall>e. ev_data follow = KeyPress e \<longrightarrow>
            \<not> (keycode e = keycode r \<and>
               (key_time e = key_time r \<or> key_time e = key_time r + 1))) \<longrightarrow>
        drain env w (Some r) q' =
          drain env (fst (switch_event env (handle_keyrelease env w r) (ev_data follow)))
            (snd (switch_event env (handle_keyrelease env w r) (ev_data follow))) q'' \<and>
        button_events (input_devices (handle_keyrelease env w r) ! 0) =
          button_events (input_devices w ! 0) @
          (if get_button env r \<noteq> none then [ButtonUp (get_button env r)] else [])) \<and>
     (XCheckIfEvent (xwindow w) q' = Some (follow, q'') \<and> ev_filtered follow \<longrightarrow>
        drain env w (Some r) q' = drain env w (Some r) q'') \<and>
     (XCheckIfEvent (xwindow w) q' = None \<longrightarrow>
        drain env w (Some r) q' = (handle_keyrelease env w r, q') \<and>
        button_events (input_devices (handle_keyrelease env w r) ! 0) =
          button_events (input_devices w ! 0) @
          (if get_button env r \<noteq> none then [ButtonUp (get_button env r)] else []))"
proof (intro conjI impI)
  assume "ev_data event = KeyRelease r"
  then show "loop_body env w None event = (w, Some r)"
    and "loop_body env w (Some r') event = (handle_keyrelease env w r', Some r)"
    by (rule loop_body_KeyRelease)+
next
  assume "XCheckIfEvent (xwindow w) q = Some (event, q') \<and> \<not> ev_filtered event \<and>
      ev_data event = KeyRelease r"
  then show "drain env w None q = drain env w (Some r) q'"
    by (simp add: drain_step loop_body_KeyRelease)
next
  assume "GraphicsWindow_process_events env v = v' \<and> xwindow v' \<noteq> 0 \<and>
      poll_raw_mice env v' = w"
  then show "process_events env v q = drain env w None q"
    using process_events_open [of env v q] by auto
next
  assume rep: "XCheckIfEvent (xwindow w) q' = Some (follow, q'') \<and> \<not> ev_filtered follow \<and>
      ev_data follow = KeyPress e \<and> keycode e = keycode r \<and>
      (key_time e = key_time r \<or> key_time e = key_time r + 1)"
  then have body: "loop_body env w (Some r) follow =
      (handle_keypress env (handle_keystroke env w e) e, None)"
    by (intro loop_body_repeat) (simp_all add: time_within_one)
  show "drain env w (Some r) q' =
      drain env (handle_keypress env (handle_keystroke env w e) e) None q''"
    using rep by (simp add: drain_step body)
  show "button_events (input_devices (handle_keypress env (handle_keystroke env w e) e) ! 0) =
          button_events (input_devices w ! 0) @
          (if ic w \<noteq> None then map Keystroke (XwcLookupString env e)
           else if has_ascii_equivalent env (get_button env e)
                then [Keystroke (get_ascii_equivalent env (get_button env e))] else []) @
          (if get_button env e \<noteq> none then [ButtonDown (get_button env e)] else [])"
    by (simp only: handle_keypress_emits [OF handle_keystroke_devices [OF assms]]
        handle_keystroke_emits [OF assms] append_assoc)
next
  assume gen: "XCheckIfEvent (xwindow w) q' = Some (follow, q'') \<and> \<not> ev_filtered follow \<and>
      (\<forall>e. ev_data follow = KeyPress e \<longrightarrow>
            \<not> (keycode e = keycode r \<and>
               (key_time e = key_time r \<or> key_time e = key_time r + 1)))"
  then have body: "loop_body env w (Some r) follow =
      switch_event env (handle_keyrelease env w r) (ev_data follow)"
    by (intro loop_body_genuine) (simp add: time_within_one)
  show "drain env w (Some r) q' =
      drain env (fst (switch_event env (handle_keyrelease env w r) (ev_data follow)))
        (snd (switch_event env (handle_keyrelease env w r) (ev_data follow))) q''"
    using gen by (simp add: drain_step body)
  show "button_events (input_devices (handle_keyrelease env w r) ! 0) =
          button_events (input_devices w ! 0) @
          (if get_button env r \<noteq> none then [ButtonUp (get_button env r)] else [])"
    by (rule handle_keyrelease_emits [OF assms])
next
  assume "XCheckIfEvent (xwindow w) q' = Some (follow, q'') \<and> ev_filtered follow"
  then show "drain env w (Some r) q' = drain env w (Some r) q''"
    by (simp add: drain_step)
next
  assume "XCheckIfEvent (xwindow w) q' = None"
  then show "drain env w (Some r) q' = (handle_keyrelease env w r, q')"
    by (simp add: drain_end)
  show "button_events (input_devices (handle_keyrelease env w r) ! 0) =
          button_events (input_devices w ! 0) @
          (if get_button env r \<noteq> none then [ButtonUp (get_button env r)] else [])"
    by (rule handle_keyrelease_emits [OF assms])
qed

lemma key_ex_fields:
  "keycode (key_ex k t) = k" "key_time (key_ex k t) = t"
  by (simp_all add: key_ex_def)

lemma env_ex_ascii:
  "has_ascii_equivalent env_ex (ascii_key c)" "\<not> has_ascii_equivalent env_ex none"
  "get_ascii_equivalent env_ex (ascii_key CHR ''a'') = 97"
  by (simp_all add: env_ex_def)

lemma release_ex:
  "input_devices (handle_keyrelease env_ex window_ex (key_ex 38 t)) \<noteq> []"
  "button_events (input_devices (handle_keyrelease env_ex window_ex (key_ex 38 t)) ! 0) =
     [ButtonUp (ascii_key CHR ''a'')]"
  "ic (handle_keyrelease env_ex window_ex (key_ex 38 t)) = None"
proof -
  show "input_devices (handle_keyrelease env_ex window_ex (key_ex 38 t)) \<noteq> []"
    using window_ex_fields(1) by (simp add: handle_keyrelease_def Let_def update_device_def)
  show "button_events (input_devices (handle_keyrelease env_ex window_ex (key_ex 38 t)) ! 0) =
     [ButtonUp (ascii_key CHR ''a'')]"
    by (simp add: handle_keyrelease_emits [OF window_ex_fields(1)] get_button_ex
        window_ex_fields)
  show "ic (handle_keyrelease env_ex window_ex (key_ex 38 t)) = None"
    by (simp add: window_ex_fields)
qed

text \<open>
  One pass over a release of the key \<open>a\<close> followed by a second event, on the example
  window: what the primary device has been given when the pass returns.
\<close>

lemma pass_ex:
  "process_events env_ex window_ex [event_ex (KeyRelease r), event_ex d] =
     drain env_ex (fst (loop_body env_ex window_ex (Some r) (event_ex d)))
       (snd (loop_body env_ex window_ex (Some r) (event_ex d))) []"
  "process_events env_ex window_ex [event_ex (KeyRelease r)] =
     (handle_keyrelease env_ex window_ex r, [])"
proof -
  have first: "XCheckIfEvent (xwindow window_ex) (event_ex x # rest) = Some (event_ex x, rest)"
    for x rest
    by (simp only: window_ex_fields XCheckIfEvent_ex(1))
  have "process_events env_ex window_ex (event_ex (KeyRelease r) # rest) =
      drain env_ex window_ex (Some r) rest" for rest
    by (simp add: process_events_ex drain_step [OF first] XCheckIfEvent_ex loop_body_KeyRelease)
  then show "process_events env_ex window_ex [event_ex (KeyRelease r), event_ex d] =
     drain env_ex (fst (loop_body env_ex window_ex (Some r) (event_ex d)))
       (snd (loop_body env_ex window_ex (Some r) (event_ex d))) []"
    "process_events env_ex window_ex [event_ex (KeyRelease r)] =
     (handle_keyrelease env_ex window_ex r, [])"
    by (simp_all add: drain_step [OF first] XCheckIfEvent_ex drain_end)
qed

theorem key_repeat_witness:
  "button_events (input_devices (fst (process_events env_ex window_ex
      [event_ex (KeyRelease (key_ex 38 1000)), event_ex (KeyPress (key_ex 38 1001))])) ! 0) =
     [Keystroke 97, ButtonDown (ascii_key CHR ''a'')] \<and>
   button_events (input_devices (fst (process_events env_ex window_ex
      [event_ex (KeyRelease (key_ex 38 1000)), event_ex (KeyPress (key_ex 38 1005))])) ! 0) =
     [ButtonUp (ascii_key CHR ''a''), Keystroke 97, ButtonDown (ascii_key CHR ''a'')] \<and>
   button_events (input_devices (fst (process_events env_ex window_ex
      [event_ex (KeyRelease (key_ex 38 1000)), event_ex FocusOut])) ! 0) =
     [ButtonUp (ascii_key CHR ''a'')] \<and>
   button_events (input_devices (fst (process_events env_ex window_ex
      [event_ex (KeyRelease (key_ex 38 1000))])) ! 0) =
     [ButtonUp (ascii_key CHR ''a'')]"
proof -
  let ?r = "key_ex 38 1000"
  let ?rel = "event_ex (KeyRelease ?r)"
  let ?up = "handle_keyrelease env_ex window_ex ?r"
  have first: "XCheckIfEvent (xwindow window_ex) (event_ex x # rest) = Some (event_ex x, rest)"
    for x rest
    by (simp only: window_ex_fields XCheckIfEvent_ex(1))
  have closed: "XCheckIfEvent (xwindow v) [] = None" for v :: window
    by simp
  have handle: "xwindow window_ex \<noteq> 0"
    by (simp add: window_ex_fields)
  note up = release_ex [of 1000]
  note repeated = key_repeat [OF window_ex_fields(1), where env = env_ex and r = ?r
      and r' = ?r and event = ?rel and q = "[?rel, event_ex (KeyPress (key_ex 38 1001))]"
      and q' = "[event_ex (KeyPress (key_ex 38 1001))]" and v = window_ex and v' = window_ex
      and follow = "event_ex (KeyPress (key_ex 38 1001))" and e = "key_ex 38 1001" and q'' = "[]"]
  note late = key_repeat [OF window_ex_fields(1), where env = env_ex and r = ?r
      and r' = ?r and event = ?rel and q = "[?rel, event_ex (KeyPress (key_ex 38 1005))]"
      and q' = "[event_ex (KeyPress (key_ex 38 1005))]" and v = window_ex and v' = window_ex
      and follow = "event_ex (KeyPress (key_ex 38 1005))" and e = "key_ex 38 1005" and q'' = "[]"]
  note other = key_repeat [OF window_ex_fields(1), where env = env_ex and r = ?r
      and r' = ?r and event = ?rel and q = "[?rel, event_ex FocusOut]"
      and q' = "[event_ex FocusOut]" and v = window_ex and v' = window_ex
      and follow = "event_ex FocusOut" and e = "key_ex 38 1001" and q'' = "[]"]
  note ended = key_repeat [OF window_ex_fields(1), where env = env_ex and r = ?r
      and r' = ?r and event = ?rel and q = "[?rel]"
      and q' = "[]" and v = window_ex and v' = window_ex
      and follow = "event_ex FocusOut" and e = "key_ex 38 1001" and q'' = "[]"]
  have "button_events (input_devices (fst (process_events env_ex window_ex
      [?rel, event_ex (KeyPress (key_ex 38 1001))])) ! 0) =
     [Keystroke 97, ButtonDown (ascii_key CHR ''a'')]"
    using repeated
    by (elim conjE)
       (simp add: first XCheckIfEvent_ex process_events_ex(1) poll_raw_mice_ex handle
          key_ex_fields drain_end [OF closed] get_button_ex env_ex_ascii window_ex_fields)
  moreover have "button_events (input_devices (fst (process_events env_ex window_ex
      [?rel, event_ex (KeyPress (key_ex 38 1005))])) ! 0) =
     [ButtonUp (ascii_key CHR ''a''), Keystroke 97, ButtonDown (ascii_key CHR ''a'')]"
    using late
    by (elim conjE)
       (simp add: first XCheckIfEvent_ex process_events_ex(1) poll_raw_mice_ex handle
          key_ex_fields drain_end [OF closed] get_button_ex env_ex_ascii window_ex_fields
          switch_event_def handle_keypress_emits [OF handle_keystroke_devices [OF up(1)]]
          handle_keystroke_emits [OF up(1)] up)
  moreover have "button_events (input_devices (fst (process_events env_ex window_ex
      [?rel, event_ex FocusOut])) ! 0) = [ButtonUp (ascii_key CHR ''a'')]"
    using other
    by (elim conjE)
       (simp add: first XCheckIfEvent_ex process_events_ex(1) poll_raw_mice_ex handle
          key_ex_fields drain_end [OF closed] get_button_ex env_ex_ascii window_ex_fields
          switch_event_def system_changed_properties_def up)
  moreover have "button_events (input_devices (fst (process_events env_ex window_ex [?rel])) ! 0) =
     [ButtonUp (ascii_key CHR ''a'')]"
    using ended
    by (elim conjE)
       (simp add: first XCheckIfEvent_ex process_events_ex(1) poll_raw_mice_ex handle
          key_ex_fields get_button_ex window_ex_fields)
  ultimately show ?thesis
    by simp
qed

text \<open>
  The claim as stated fails on a key that \<^verbatim>\<open>get_button\<close> does not map. A pass over the
  release of Num Lock at time 1000 followed by its press at time 1001, with no input
  context, takes the press as a repeat and emits nothing at all for it, neither a
  keystroke nor a button-down; a pass that ends on the release of Num Lock emits no
  button-up. It also fails on a press one unit before the release: the key \<open>a\<close> released at
  time 1000 and pressed at time 999 is not taken as a repeat, the unsigned difference of
  the times being large.
\<close>

theorem key_repeat_counterexample:
  "keycode (key_ex 77 1001) = keycode (key_ex 77 1000) \<and>
   key_time (key_ex 77 1001) - key_time (key_ex 77 1000) \<le> 1 \<and>
   button_events (input_devices (fst (process_events env_ex window_ex
      [event_ex (KeyRelease (key_ex 77 1000)), event_ex (KeyPress (key_ex 77 1001))])) ! 0) = [] \<and>
   button_events (input_devices (fst (process_events env_ex window_ex
      [event_ex (KeyRelease (key_ex 77 1000))])) ! 0) = [] \<and>
   button_events (input_devices (fst (process_events env_ex window_ex
      [event_ex (KeyRelease (key_ex 38 1000)), event_ex (KeyPress (key_ex 38 999))])) ! 0) =
     [ButtonUp (ascii_key CHR ''a''), Keystroke 97, ButtonDown (ascii_key CHR ''a'')]"
proof -
  let ?numlock = "key_ex 77 1001"
  let ?w = "handle_keypress env_ex (handle_keystroke env_ex window_ex ?numlock) ?numlock"
  let ?up = "handle_keyrelease env_ex window_ex (key_ex 38 1000)"
  let ?early = "key_ex 38 999"
  have closed: "XCheckIfEvent (xwindow v) [] = None" for v :: window
    by simp
  have body: "loop_body env_ex window_ex (Some (key_ex 77 1000)) (event_ex (KeyPress ?numlock)) =
      (?w, None)"
    by (rule loop_body_repeat) (simp_all add: XCheckIfEvent_ex key_ex_fields)
  have "button_events (input_devices ?w ! 0) = []"
    by (simp add: handle_keypress_emits [OF handle_keystroke_devices [OF window_ex_fields(1)]]
        handle_keystroke_emits [OF window_ex_fields(1)] get_button_ex window_ex_fields
        env_ex_ascii)
  then have repeated: "button_events (input_devices (fst (process_events env_ex window_ex
      [event_ex (KeyRelease (key_ex 77 1000)), event_ex (KeyPress ?numlock)])) ! 0) = []"
    by (simp add: pass_ex body drain_end [OF closed])
  have ended: "button_events (input_devices (fst (process_events env_ex window_ex
      [event_ex (KeyRelease (key_ex 77 1000))])) ! 0) = []"
    by (simp add: pass_ex handle_keyrelease_emits [OF window_ex_fields(1)] get_button_ex
        window_ex_fields)
  note up = release_ex [of 1000]
  have "loop_body env_ex window_ex (Some (key_ex 38 1000)) (event_ex (KeyPress ?early)) =
      switch_event env_ex ?up (ev_data (event_ex (KeyPress ?early)))"
    by (rule loop_body_genuine) (simp add: XCheckIfEvent_ex key_ex_fields time_within_one)
  then have early: "button_events (input_devices (fst (process_events env_ex window_ex
      [event_ex (KeyRelease (key_ex 38 1000)), event_ex (KeyPress ?early)])) ! 0) =
     [ButtonUp (ascii_key CHR ''a''), Keystroke 97, ButtonDown (ascii_key CHR ''a'')]"
    by (simp add: pass_ex drain_end [OF closed] XCheckIfEvent_ex switch_event_def
        handle_keypress_emits [OF handle_keystroke_devices [OF up(1)]]
        handle_keystroke_emits [OF up(1)] up get_button_ex env_ex_ascii window_ex_fields)
  show ?thesis
    using repeated ended early by (simp add: key_ex_fields)
qed

subsection \<open>The configuration flag\<close>







subsection \<open>Deferred geometry\<close>






end
